theory Spec2Isabelle
  imports Main
begin

section \<open>JavaScript values\<close>

text \<open>
  The response trees, the variable values and the argument objects of the cache are
  untyped JavaScript values. A value is \<open>undefined\<close>, \<open>null\<close>, a boolean, a number, a
  string, an array, an object, or one of the built-in objects of the language, which a
  property read can reach through a prototype chain. The type \<open>'n\<close> stands for the
  JavaScript numbers (IEEE doubles, with \<open>0\<close> and \<open>-0\<close> identified and no \<open>NaN\<close>, as JSON
  gives them): the conversion \<open>Number(text)\<close> and the text \<open>JSON.stringify\<close> prints for a
  number belong to the host and are parameters (\<open>num\<close> and \<open>shw\<close>) of the functions that
  use them.

  A built-in object is \<open>Object.prototype\<close>, one of the functions it holds (named by the
  property that holds it), or another object of the environment, named by a path such
  as \<open>Array.prototype\<close> or \<open>Function.prototype.call\<close>.
\<close>

datatype builtin =
    ObjectPrototype
  | ObjectMethod string
  | OtherBuiltin string

text \<open>
  An object is the list of its own enumerable properties in enumeration order, which
  for names that are not array indices (no GraphQL name is one) is insertion order.
  \<open>JObj\<close> is an object whose prototype is \<open>Object.prototype\<close>, as an object literal and
  \<open>JSON.parse\<close> make it; \<open>JObjP proto props\<close> is an object whose prototype has been
  replaced by \<open>proto\<close> (an object, or \<open>null\<close>), which an assignment to \<open>__proto__\<close> does.
  Objects and arrays are ordinary data: extensible, with writable properties.
\<close>

datatype 'n jsval =
    JUndefined
  | JNull
  | JBool bool
  | JNum 'n
  | JStr string
  | JArr "'n jsval list"
  | JObj "(string \<times> 'n jsval) list"
  | JObjP "'n jsval" "(string \<times> 'n jsval) list"
  | JBuiltin builtin

text \<open>\<open>obj[k] = v\<close>: an existing property keeps its place, a new one goes last.\<close>

fun setProp :: "(string \<times> 'v) list \<Rightarrow> string \<Rightarrow> 'v \<Rightarrow> (string \<times> 'v) list" where
  "setProp [] k v = [(k, v)]"
| "setProp ((k', v') # kvs) k v =
     (if k' = k then (k, v) # kvs else (k', v') # setProp kvs k v)"

text \<open>The errors the code throws, by kind.\<close>

datatype error =
    UnsupportedArgument string string
  | NoFragment string
  | IdentityViolation
  | IdentityOverwrite string
  | TypeError
  | HostError string
  | NoDataForField string
  | NotComposite string

subsection \<open>Properties and prototypes\<close>

text \<open>
  What an assignment \<open>obj[key] = v\<close> finds when \<open>obj\<close> has no own property \<open>key\<close> and the
  prototype chain is searched: nothing or a writable data property (the assignment
  creates an own property), the accessor \<open>__proto__\<close> of \<open>Object.prototype\<close> (its setter
  runs), or a property that takes no assignment, silently or with a \<open>TypeError\<close>.
\<close>

datatype set_effect = CreateOwn | ProtoSetter | Ignored | Rejected

text \<open>
  The built-in objects other than \<open>Object.prototype\<close> differ between versions of the
  language and are parameters: \<open>primitiveGet v key\<close> is \<open>v[key]\<close> for a string, a number,
  a boolean or an array \<open>v\<close> (its own properties and those it inherits);
  \<open>builtinGet b key\<close> is \<open>b[key]\<close> for a built-in object; \<open>builtinSet b key\<close> is what an
  assignment of \<open>key\<close> finds in the chain that starts at \<open>b\<close>; \<open>builtinCallable\<close> says
  whether a built-in object named by a path is a function and \<open>builtinJSON\<close> gives the
  text \<open>JSON.stringify\<close> prints for one that is not; \<open>callToJSON b this key\<close> is the
  serialization of what the function \<open>b\<close>, called as \<open>this.toJSON(key)\<close>, returns
  (\<open>None\<close> when that has none), or the error it throws.
\<close>

record 'n environment =
  primitiveGet :: "'n jsval \<Rightarrow> string \<Rightarrow> 'n jsval"
  builtinGet :: "builtin \<Rightarrow> string \<Rightarrow> 'n jsval"
  builtinSet :: "builtin \<Rightarrow> string \<Rightarrow> set_effect"
  builtinCallable :: "string \<Rightarrow> bool"
  builtinJSON :: "string \<Rightarrow> string option"
  callToJSON :: "builtin \<Rightarrow> 'n jsval \<Rightarrow> string \<Rightarrow> error + string option"

text \<open>
  The properties of \<open>Object.prototype\<close>: eleven functions and the accessor \<open>__proto__\<close>,
  whose getter returns the prototype of the object the property was read from.
\<close>

definition objectPrototypeMethods :: "string list" where
  "objectPrototypeMethods =
     [''constructor'', ''__defineGetter__'', ''__defineSetter__'', ''hasOwnProperty'',
      ''__lookupGetter__'', ''__lookupSetter__'', ''isPrototypeOf'', ''propertyIsEnumerable'',
      ''toString'', ''valueOf'', ''toLocaleString'']"

definition objectPrototypeGet :: "string \<Rightarrow> 'n jsval \<Rightarrow> 'n jsval" where
  "objectPrototypeGet key receiverProto =
     (if key = ''__proto__'' then receiverProto
      else if key \<in> set objectPrototypeMethods then JBuiltin (ObjectMethod key)
      else JUndefined)"

text \<open>
  \<open>getThrough env v key receiverProto\<close>: the property \<open>key\<close> as the chain that starts at
  the object \<open>v\<close> gives it, for a read from an object whose prototype is
  \<open>receiverProto\<close>. The chain of an array and of a built-in object ends in
  \<open>Object.prototype\<close>; \<open>null\<close> ends a chain with nothing found.
\<close>

fun getThrough :: "'n environment \<Rightarrow> 'n jsval \<Rightarrow> string \<Rightarrow> 'n jsval \<Rightarrow> 'n jsval" where
  "getThrough env (JObj kvs) key receiverProto =
     (case map_of kvs key of Some x \<Rightarrow> x | None \<Rightarrow> objectPrototypeGet key receiverProto)"
| "getThrough env (JObjP proto kvs) key receiverProto =
     (case map_of kvs key of Some x \<Rightarrow> x | None \<Rightarrow> getThrough env proto key receiverProto)"
| "getThrough env (JArr xs) key receiverProto =
     (if key = ''__proto__'' then receiverProto else primitiveGet env (JArr xs) key)"
| "getThrough env (JBuiltin b) key receiverProto =
     (if key = ''__proto__'' then receiverProto
      else if b = ObjectPrototype then objectPrototypeGet key receiverProto
      else builtinGet env b key)"
| "getThrough env v key receiverProto = JUndefined"

text \<open>\<open>v[key]\<close> for a value \<open>v\<close> that is neither \<open>null\<close> nor \<open>undefined\<close>.\<close>

definition getV :: "'n environment \<Rightarrow> 'n jsval \<Rightarrow> string \<Rightarrow> 'n jsval" where
  "getV env v key =
     (case v of
        JObj kvs \<Rightarrow> getThrough env v key (JBuiltin ObjectPrototype)
      | JObjP proto kvs \<Rightarrow> getThrough env v key proto
      | JBuiltin b \<Rightarrow>
          if b = ObjectPrototype then objectPrototypeGet key JNull else builtinGet env b key
      | _ \<Rightarrow> primitiveGet env v key)"

text \<open>\<open>result[key]\<close>: a \<open>TypeError\<close> on \<open>null\<close> and \<open>undefined\<close>.\<close>

definition getProp :: "'n environment \<Rightarrow> 'n jsval \<Rightarrow> string \<Rightarrow> error + 'n jsval" where
  "getProp env obj key =
     (case obj of
        JUndefined \<Rightarrow> Inl TypeError
      | JNull \<Rightarrow> Inl TypeError
      | _ \<Rightarrow> Inr (getV env obj key))"

text \<open>\<open>lodash.isobject\<close>: an object or a function, not \<open>null\<close>.\<close>

definition isObject :: "'n jsval \<Rightarrow> bool" where
  "isObject v =
     (case v of
        JArr xs \<Rightarrow> True | JObj kvs \<Rightarrow> True | JObjP proto kvs \<Rightarrow> True | JBuiltin b \<Rightarrow> True
      | _ \<Rightarrow> False)"

definition isCallable :: "'n environment \<Rightarrow> 'n jsval \<Rightarrow> bool" where
  "isCallable env v =
     (case v of
        JBuiltin (ObjectMethod m) \<Rightarrow> True
      | JBuiltin (OtherBuiltin path) \<Rightarrow> builtinCallable env path
      | _ \<Rightarrow> False)"

text \<open>
  What an assignment of \<open>key\<close> finds in the chain that starts at the prototype \<open>v\<close>. The
  data properties of \<open>Object.prototype\<close>, of \<open>Array.prototype\<close> and of data are writable.
\<close>

fun setThrough :: "'n environment \<Rightarrow> 'n jsval \<Rightarrow> string \<Rightarrow> set_effect" where
  "setThrough env (JObj kvs) key =
     (if key \<in> fst ` set kvs then CreateOwn
      else if key = ''__proto__'' then ProtoSetter else CreateOwn)"
| "setThrough env (JObjP proto kvs) key =
     (if key \<in> fst ` set kvs then CreateOwn else setThrough env proto key)"
| "setThrough env (JArr xs) key = (if key = ''__proto__'' then ProtoSetter else CreateOwn)"
| "setThrough env (JBuiltin b) key =
     (if b = ObjectPrototype then (if key = ''__proto__'' then ProtoSetter else CreateOwn)
      else builtinSet env b key)"
| "setThrough env v key = CreateOwn"

definition ownProps :: "'n jsval \<Rightarrow> (string \<times> 'n jsval) list" where
  "ownProps obj = (case obj of JObj kvs \<Rightarrow> kvs | JObjP proto kvs \<Rightarrow> kvs | _ \<Rightarrow> [])"

definition protoOf :: "'n jsval \<Rightarrow> 'n jsval" where
  "protoOf obj = (case obj of JObjP proto kvs \<Rightarrow> proto | _ \<Rightarrow> JBuiltin ObjectPrototype)"

definition mkObject :: "'n jsval \<Rightarrow> (string \<times> 'n jsval) list \<Rightarrow> 'n jsval" where
  "mkObject proto kvs = (if proto = JBuiltin ObjectPrototype then JObj kvs else JObjP proto kvs)"

text \<open>
  \<open>obj[key] = v\<close> for an object \<open>obj\<close>, which gives the object as assigned or throws. An
  own property is updated. Otherwise the chain decides: the setter of \<open>__proto__\<close>
  creates no property, and replaces the prototype of \<open>obj\<close> when \<open>v\<close> is an object or
  \<open>null\<close> (\<open>v\<close> is a value built before the assignment, so the new chain has no cycle).
\<close>

definition assignProperty ::
    "'n environment \<Rightarrow> 'n jsval \<Rightarrow> string \<Rightarrow> 'n jsval \<Rightarrow> error + 'n jsval" where
  "assignProperty env obj key v =
     (if key \<in> fst ` set (ownProps obj) then
        Inr (mkObject (protoOf obj) (setProp (ownProps obj) key v))
      else
        (case setThrough env (protoOf obj) key of
           CreateOwn \<Rightarrow> Inr (mkObject (protoOf obj) (setProp (ownProps obj) key v))
         | ProtoSetter \<Rightarrow>
             Inr (if isObject v \<or> v = JNull then mkObject v (ownProps obj) else obj)
         | Ignored \<Rightarrow> Inr obj
         | Rejected \<Rightarrow> Inl TypeError))"

text \<open>The decimal text of an array index, as a template literal prints it.\<close>

fun showNat :: "nat \<Rightarrow> string" where
  "showNat n =
     (if n < 10 then [''0123456789'' ! n]
      else showNat (n div 10) @ [''0123456789'' ! (n mod 10)])"

declare showNat.simps [simp del]

section \<open>storeUtils: the field-key encoder\<close>

subsection \<open>\<open>JSON.stringify\<close>\<close>

definition hexDigit :: "nat \<Rightarrow> char" where
  "hexDigit n = ''0123456789abcdef'' ! (n mod 16)"

text \<open>
  \<open>QuoteJSONString\<close> on one character: the two-character escapes, the six-character
  hexadecimal escape for the other control characters, the character itself otherwise.
  \<open>CHR 0x5C\<close> is the backslash and \<open>CHR 0x22\<close> the double quote.
\<close>

definition quoteChar :: "char \<Rightarrow> string" where
  "quoteChar c =
     (if c = CHR 0x08 then [CHR 0x5C, CHR ''b'']
      else if c = CHR 0x09 then [CHR 0x5C, CHR ''t'']
      else if c = CHR 0x0A then [CHR 0x5C, CHR ''n'']
      else if c = CHR 0x0C then [CHR 0x5C, CHR ''f'']
      else if c = CHR 0x0D then [CHR 0x5C, CHR ''r'']
      else if c = CHR 0x22 then [CHR 0x5C, CHR 0x22]
      else if c = CHR 0x5C then [CHR 0x5C, CHR 0x5C]
      else if (of_char c :: nat) < 32 then
        [CHR 0x5C, CHR ''u'', CHR ''0'', CHR ''0'',
         hexDigit ((of_char c :: nat) div 16), hexDigit ((of_char c :: nat) mod 16)]
      else [c])"

definition quoteJSONString :: "string \<Rightarrow> string" where
  "quoteJSONString s = CHR 0x22 # concat (map quoteChar s) @ [CHR 0x22]"

fun joinComma :: "string list \<Rightarrow> string" where
  "joinComma [] = []"
| "joinComma [s] = s"
| "joinComma (s # t # ts) = s @ '','' @ joinComma (t # ts)"

text \<open>
  The \<open>toJSON\<close> method \<open>SerializeJSONProperty\<close> calls on an object: the property
  \<open>toJSON\<close> of the object, when it is a function. Data holds no function, so it is a
  built-in one. The built-in prototypes of objects and arrays have no \<open>toJSON\<close>.
\<close>

definition toJSONMethod :: "'n environment \<Rightarrow> 'n jsval \<Rightarrow> builtin option" where
  "toJSONMethod env v =
     (case getV env v ''toJSON'' of
        JBuiltin b \<Rightarrow> if isCallable env (JBuiltin b) then Some b else None
      | _ \<Rightarrow> None)"

text \<open>
  \<open>SerializeJSONProperty\<close> for the value \<open>v\<close> held under \<open>key\<close>: \<open>undefined\<close> and a
  function have no serialization (\<open>None\<close>); an array prints \<open>null\<close> for such an element
  and an object leaves such a property out. An object with a \<open>toJSON\<close> method is
  serialized as what the method returns. The call may throw.
\<close>

fun serializeJSONProperty ::
    "'n environment \<Rightarrow> ('n \<Rightarrow> string) \<Rightarrow> string \<Rightarrow> 'n jsval \<Rightarrow> error + string option"
  and serializeJSONArray ::
    "'n environment \<Rightarrow> ('n \<Rightarrow> string) \<Rightarrow> nat \<Rightarrow> 'n jsval list \<Rightarrow> error + string list"
  and serializeJSONObject ::
    "'n environment \<Rightarrow> ('n \<Rightarrow> string) \<Rightarrow> (string \<times> 'n jsval) list \<Rightarrow> error + string list"
where
  "serializeJSONProperty env shw key JUndefined = Inr None"
| "serializeJSONProperty env shw key JNull = Inr (Some ''null'')"
| "serializeJSONProperty env shw key (JBool b) = Inr (Some (if b then ''true'' else ''false''))"
| "serializeJSONProperty env shw key (JNum n) = Inr (Some (shw n))"
| "serializeJSONProperty env shw key (JStr s) = Inr (Some (quoteJSONString s))"
| "serializeJSONProperty env shw key (JArr xs) =
     (case serializeJSONArray env shw 0 xs of
        Inl e \<Rightarrow> Inl e
      | Inr ts \<Rightarrow> Inr (Some (''['' @ joinComma ts @ '']'')))"
| "serializeJSONProperty env shw key (JObj kvs) =
     (case toJSONMethod env (JObj kvs) of
        Some b \<Rightarrow> callToJSON env b (JObj kvs) key
      | None \<Rightarrow>
          (case serializeJSONObject env shw kvs of
             Inl e \<Rightarrow> Inl e
           | Inr ts \<Rightarrow> Inr (Some (''{'' @ joinComma ts @ ''}''))))"
| "serializeJSONProperty env shw key (JObjP proto kvs) =
     (case toJSONMethod env (JObjP proto kvs) of
        Some b \<Rightarrow> callToJSON env b (JObjP proto kvs) key
      | None \<Rightarrow>
          (case serializeJSONObject env shw kvs of
             Inl e \<Rightarrow> Inl e
           | Inr ts \<Rightarrow> Inr (Some (''{'' @ joinComma ts @ ''}''))))"
| "serializeJSONProperty env shw key (JBuiltin b) =
     (case b of
        ObjectPrototype \<Rightarrow> Inr (Some ''{}'')
      | ObjectMethod m \<Rightarrow> Inr None
      | OtherBuiltin path \<Rightarrow>
          Inr (if builtinCallable env path then None else builtinJSON env path))"
| "serializeJSONArray env shw index [] = Inr []"
| "serializeJSONArray env shw index (x # xs) =
     (case serializeJSONProperty env shw (showNat index) x of
        Inl e \<Rightarrow> Inl e
      | Inr t \<Rightarrow>
          (case serializeJSONArray env shw (Suc index) xs of
             Inl e \<Rightarrow> Inl e
           | Inr ts \<Rightarrow> Inr ((case t of None \<Rightarrow> ''null'' | Some s \<Rightarrow> s) # ts)))"
| "serializeJSONObject env shw [] = Inr []"
| "serializeJSONObject env shw ((k, v) # kvs) =
     (case serializeJSONProperty env shw k v of
        Inl e \<Rightarrow> Inl e
      | Inr t \<Rightarrow>
          (case serializeJSONObject env shw kvs of
             Inl e \<Rightarrow> Inl e
           | Inr ts \<Rightarrow>
               Inr (case t of None \<Rightarrow> ts | Some s \<Rightarrow> (quoteJSONString k @ '':'' @ s) # ts)))"

text \<open>
  \<open>JSON.stringify(x)\<close> inside a template literal: the value is held under the empty
  key, and the \<open>undefined\<close> that is returned for a value with no serialization prints as
  the text \<open>undefined\<close>.
\<close>

definition JSON_stringify :: "'n environment \<Rightarrow> ('n \<Rightarrow> string) \<Rightarrow> 'n jsval \<Rightarrow> error + string" where
  "JSON_stringify env shw x =
     (case serializeJSONProperty env shw [] x of
        Inl e \<Rightarrow> Inl e
      | Inr None \<Rightarrow> Inr ''undefined''
      | Inr (Some t) \<Rightarrow> Inr t)"

subsection \<open>Argument values\<close>

text \<open>
  The value nodes of the GraphQL AST. \<open>OtherValue kind\<close> is a node of any kind the
  encoder does not test for (\<open>NullValue\<close>, for one).
\<close>

datatype value_node =
    IntValue string
  | FloatValue string
  | StringValue string
  | BooleanValue bool
  | ObjectValue "(string \<times> value_node) list"
  | Variable string
  | ListValue "value_node list"
  | EnumValue string
  | OtherValue string

text \<open>
  \<open>(variables || {})[name]\<close>: the variable environment is a plain object, given as the
  map of its own properties (the empty map when it is absent); a name it does not bind
  is read from \<open>Object.prototype\<close>.
\<close>

definition lookupVariable :: "(string \<rightharpoonup> 'n jsval) \<Rightarrow> string \<Rightarrow> 'n jsval" where
  "lookupVariable vars v =
     (case vars v of
        Some variableValue \<Rightarrow> variableValue
      | None \<Rightarrow> objectPrototypeGet v (JBuiltin ObjectPrototype))"

text \<open>
  \<open>valueToObjectRepresentation(argObj, name, value, variables)\<close> assigns
  \<open>argObj[name.value]\<close> in place; the model returns the object as assigned, or the error
  thrown. \<open>fieldsToObjectRepresentation\<close> is the loop \<open>value.fields.map(...)\<close> over the
  fields of an object literal, which assigns to one shared object, and
  \<open>listToObjectRepresentation\<close> the \<open>value.values.map(...)\<close> over the elements of a list
  literal, each through an object of its own, from which the element is read back.
\<close>

fun valueToObjectRepresentation ::
    "(string \<Rightarrow> 'n) \<Rightarrow> 'n environment \<Rightarrow> 'n jsval \<Rightarrow> string \<Rightarrow> value_node
      \<Rightarrow> (string \<rightharpoonup> 'n jsval) \<Rightarrow> error + 'n jsval"
  and fieldsToObjectRepresentation ::
    "(string \<Rightarrow> 'n) \<Rightarrow> 'n environment \<Rightarrow> 'n jsval \<Rightarrow> (string \<times> value_node) list
      \<Rightarrow> (string \<rightharpoonup> 'n jsval) \<Rightarrow> error + 'n jsval"
  and listToObjectRepresentation ::
    "(string \<Rightarrow> 'n) \<Rightarrow> 'n environment \<Rightarrow> string \<Rightarrow> value_node list
      \<Rightarrow> (string \<rightharpoonup> 'n jsval) \<Rightarrow> error + 'n jsval list"
where
  "valueToObjectRepresentation num env argObj nm (IntValue s) vars =
     assignProperty env argObj nm (JNum (num s))"
| "valueToObjectRepresentation num env argObj nm (FloatValue s) vars =
     assignProperty env argObj nm (JNum (num s))"
| "valueToObjectRepresentation num env argObj nm (BooleanValue b) vars =
     assignProperty env argObj nm (JBool b)"
| "valueToObjectRepresentation num env argObj nm (StringValue s) vars =
     assignProperty env argObj nm (JStr s)"
| "valueToObjectRepresentation num env argObj nm (ObjectValue valueFields) vars =
     (case fieldsToObjectRepresentation num env (JObj []) valueFields vars of
        Inl e \<Rightarrow> Inl e
      | Inr nestedArgObj \<Rightarrow> assignProperty env argObj nm nestedArgObj)"
| "valueToObjectRepresentation num env argObj nm (Variable v) vars =
     assignProperty env argObj nm (lookupVariable vars v)"
| "valueToObjectRepresentation num env argObj nm (ListValue vals) vars =
     (case listToObjectRepresentation num env nm vals vars of
        Inl e \<Rightarrow> Inl e
      | Inr xs \<Rightarrow> assignProperty env argObj nm (JArr xs))"
| "valueToObjectRepresentation num env argObj nm (EnumValue s) vars =
     assignProperty env argObj nm (JStr s)"
| "valueToObjectRepresentation num env argObj nm (OtherValue kind) vars =
     Inl (UnsupportedArgument nm kind)"
| "fieldsToObjectRepresentation num env argObj [] vars = Inr argObj"
| "fieldsToObjectRepresentation num env argObj ((nm, v) # rest) vars =
     (case valueToObjectRepresentation num env argObj nm v vars of
        Inl e \<Rightarrow> Inl e
      | Inr argObj' \<Rightarrow> fieldsToObjectRepresentation num env argObj' rest vars)"
| "listToObjectRepresentation num env nm [] vars = Inr []"
| "listToObjectRepresentation num env nm (listValue # rest) vars =
     (case valueToObjectRepresentation num env (JObj []) nm listValue vars of
        Inl e \<Rightarrow> Inl e
      | Inr nestedArgArrayObj \<Rightarrow>
          (case listToObjectRepresentation num env nm rest vars of
             Inl e \<Rightarrow> Inl e
           | Inr xs \<Rightarrow> Inr (getV env nestedArgArrayObj nm # xs)))"

subsection \<open>Field keys\<close>

type_synonym directive = "string \<times> (string \<times> value_node) list"

text \<open>
  A field node without its selection set; \<open>aliasName\<close> is its \<open>alias\<close>, and
  \<open>arguments\<close> is the argument list in source order (an absent list and an empty one
  are both \<open>[]\<close>, as the code's test \<open>field.arguments && field.arguments.length\<close>
  reads them).
\<close>

record field_node =
  aliasName :: "string option"
  name :: string
  arguments :: "(string \<times> value_node) list"
  directives :: "directive list"

definition storeKeyNameFromFieldNameAndArgs ::
    "'n environment \<Rightarrow> ('n \<Rightarrow> string) \<Rightarrow> string \<Rightarrow> 'n jsval option \<Rightarrow> error + string" where
  "storeKeyNameFromFieldNameAndArgs env shw fieldName args =
     (case args of
        None \<Rightarrow> Inr fieldName
      | Some argObj \<Rightarrow>
          (case JSON_stringify env shw argObj of
             Inl e \<Rightarrow> Inl e
           | Inr stringifiedArgs \<Rightarrow> Inr (fieldName @ ''('' @ stringifiedArgs @ '')'')))"

definition storeKeyNameFromField ::
    "(string \<Rightarrow> 'n) \<Rightarrow> ('n \<Rightarrow> string) \<Rightarrow> 'n environment \<Rightarrow> field_node \<Rightarrow> (string \<rightharpoonup> 'n jsval)
      \<Rightarrow> error + string" where
  "storeKeyNameFromField num shw env field vars =
     (if arguments field \<noteq> [] then
        (case fieldsToObjectRepresentation num env (JObj []) (arguments field) vars of
           Inl e \<Rightarrow> Inl e
         | Inr argObj \<Rightarrow> storeKeyNameFromFieldNameAndArgs env shw (name field) (Some argObj))
      else Inr (name field))"

definition resultKeyNameFromField :: "field_node \<Rightarrow> string" where
  "resultKeyNameFromField field = (case aliasName field of Some a \<Rightarrow> a | None \<Rightarrow> name field)"

section \<open>The normalized store\<close>

text \<open>
  A selection is a field (with its selection set, if it has one), an inline fragment or
  a fragment spread. The writer never reads the type condition of an inline fragment.
\<close>

datatype selection =
    Field field_node "selection list option"
  | InlineFragment "directive list" "selection list"
  | FragmentSpread string "directive list"

text \<open>
  What the writer stores under a field key: the primitive it was given (\<open>Scalar\<close>), a
  wrapped JSON blob \<open>{type: 'json', json}\<close>, a reference \<open>{type: 'id', id, generated}\<close>,
  or for a list field the array of the elements' ids (strings, \<open>null\<close> for a \<open>null\<close>
  element).
\<close>

datatype 'n StoreValue =
    Scalar "'n jsval"
  | JsonValue "'n jsval"
  | IdValue string bool
  | IdList "string option list"

type_synonym 'n StoreObject = "(string \<times> 'n StoreValue) list"

text \<open>
  The store maps a data id to an entity object. Entity objects are never mutated: the
  writer replaces \<open>store[id]\<close> by a new object. An entity carries the serial number
  \<open>ref\<close> of its allocation, so that two entities are the same JavaScript object exactly
  when their \<open>ref\<close>s are equal; \<open>nextRef\<close> is the number the next object gets.
\<close>

record 'n entity =
  ref :: nat
  props :: "'n StoreObject"

type_synonym 'n NormalizedCache = "string \<rightharpoonup> 'n entity"

record 'n store_state =
  store :: "'n NormalizedCache"
  nextRef :: nat

text \<open>
  A call returns (\<open>Ok\<close>), throws, or needs a deeper recursion than the
  fuel it was given allows.
\<close>

datatype 'a outcome = Ok 'a | Throw error | OutOfFuel

definition isIdValue :: "'n StoreValue option \<Rightarrow> bool" where
  "isIdValue idObject = (case idObject of Some (IdValue i g) \<Rightarrow> True | _ \<Rightarrow> False)"

definition isGeneratedId :: "string \<Rightarrow> bool" where
  "isGeneratedId i = (case i of [] \<Rightarrow> False | c # cs \<Rightarrow> c = CHR ''$'')"

text \<open>\<open>lodash.assign(target, ...sources)\<close>; a source that is \<open>undefined\<close> is skipped.\<close>

definition assignProps :: "(string \<times> 'v) list \<Rightarrow> (string \<times> 'v) list \<Rightarrow> (string \<times> 'v) list" where
  "assignProps target source = foldl (\<lambda>obj (k, v). setProp obj k v) target source"

definition assign ::
    "(string \<times> 'v) list \<Rightarrow> (string \<times> 'v) list option list \<Rightarrow> (string \<times> 'v) list" where
  "assign target sources =
     foldl (\<lambda>obj src. case src of None \<Rightarrow> obj | Some source \<Rightarrow> assignProps obj source)
       target sources"

subsection \<open>Reconciliation\<close>

text \<open>
  The two statements that end the body of the loop of \<open>mergeWithGenerated\<close>:
  \<open>delete cache[generatedKey]\<close> and
  \<open>cache[realKey] = assign({}, generated, real)\<close>, which allocates the merged entity.
\<close>

definition replaceWithMerged ::
    "string \<Rightarrow> string \<Rightarrow> 'n StoreObject \<Rightarrow> 'n StoreObject \<Rightarrow> 'n store_state \<Rightarrow> 'n store_state" where
  "replaceWithMerged generatedKey realKey generated realObj cache =
     \<lparr>store = ((store cache)(generatedKey := None))
                (realKey \<mapsto> \<lparr>ref = nextRef cache,
                              props = assign [] [Some generated, Some realObj]\<rparr>),
      nextRef = Suc (nextRef cache)\<rparr>"

text \<open>
  \<open>mergeWithGenerated(generatedKey, realKey, cache)\<close>. \<open>Object.keys(generated)\<close> throws a
  \<open>TypeError\<close> when the generated entity is not in the cache, and so does \<open>real[key]\<close>
  when the real one is not. \<open>mergeKeys\<close> is the body of the \<open>forEach\<close> over the keys:
  \<open>generated\<close> and \<open>real\<close> are the two objects as read on entry, and the \<open>delete\<close> and the
  assignment to \<open>cache[realKey]\<close> stand inside the loop. The recursion is not bounded by
  the data (the store may hold a cycle of references), so each nested call takes one
  unit of fuel.
\<close>

fun mergeWithGenerated ::
    "nat \<Rightarrow> string \<Rightarrow> string \<Rightarrow> 'n store_state \<Rightarrow> 'n store_state outcome"
  and mergeKeys ::
    "nat \<Rightarrow> string \<Rightarrow> string \<Rightarrow> 'n StoreObject \<Rightarrow> 'n StoreObject option \<Rightarrow> string list
      \<Rightarrow> 'n store_state \<Rightarrow> 'n store_state outcome"
where
  "mergeWithGenerated fuel generatedKey realKey cache =
     (case store cache generatedKey of
        None \<Rightarrow> Throw TypeError
      | Some g \<Rightarrow>
          mergeKeys fuel generatedKey realKey (props g) (map_option props (store cache realKey))
            (map fst (props g)) cache)"
| "mergeKeys fuel generatedKey realKey generated real [] cache = Ok cache"
| "mergeKeys fuel generatedKey realKey generated real (key # keys) cache =
     (case real of
        None \<Rightarrow> Throw TypeError
      | Some realObj \<Rightarrow>
          (case
             (case (map_of generated key, map_of realObj key) of
                (Some (IdValue valueId vg), Some (IdValue realValueId rg)) \<Rightarrow>
                  if isGeneratedId valueId then
                    (case fuel of
                       0 \<Rightarrow> OutOfFuel
                     | Suc n \<Rightarrow> mergeWithGenerated n valueId realValueId cache)
                  else Ok cache
              | _ \<Rightarrow> Ok cache)
           of
             Ok cache1 \<Rightarrow>
               mergeKeys fuel generatedKey realKey generated real keys
                 (replaceWithMerged generatedKey realKey generated realObj cache1)
           | Throw e \<Rightarrow> Throw e
           | OutOfFuel \<Rightarrow> OutOfFuel))"

declare mergeWithGenerated.simps [simp del]

subsection \<open>The writer\<close>

text \<open>
  What every call of the writer is given unchanged: the variables, the caller's
  \<open>dataIdFromObject\<close> (which may be absent, and which returns a string or \<open>null\<close>), the
  fragment map (from a fragment's name to the selections of its definition), the
  host's number conversions and its built-in objects. \<open>shouldInclude\<close> (the evaluation of the \<open>@skip\<close> and
  \<open>@include\<close> directives of a selection) is defined in another module,
  \<open>queries/directives\<close>: it is a parameter here, which answers or throws.
\<close>

record 'n write_context =
  variables :: "string \<rightharpoonup> 'n jsval"
  dataIdFromObject :: "('n jsval \<Rightarrow> string option) option"
  fragmentMap :: "string \<rightharpoonup> selection list"
  shouldInclude :: "selection \<Rightarrow> (string \<rightharpoonup> 'n jsval) \<Rightarrow> error + bool"
  Number :: "string \<Rightarrow> 'n"
  numberToJSON :: "'n \<Rightarrow> string"
  environment :: "'n environment"

text \<open>
  \<open>storeValue !== store[dataId][storeFieldName]\<close>, with \<open>existing\<close> the property read
  (\<open>None\<close> when the entity has no such property). A JSON blob, a reference and an id list
  are objects the writer has just created, which no stored object is identical to. A
  scalar is a primitive and is compared by value; a property that is missing and one
  that holds \<open>undefined\<close> read alike.
\<close>

definition strictNotEqual :: "'n StoreValue \<Rightarrow> 'n StoreValue option \<Rightarrow> bool" where
  "strictNotEqual storeValue existing =
     (case storeValue of
        Scalar v \<Rightarrow>
          (case existing of
             None \<Rightarrow> v \<noteq> JUndefined
           | Some (Scalar w) \<Rightarrow> v \<noteq> w
           | Some other \<Rightarrow> True)
      | _ \<Rightarrow> True)"

text \<open>
  The end of \<open>writeFieldToStore\<close>, from \<open>const newStoreObj = ...\<close> on. \<open>merge\<close> is
  \<open>Some (generatedKey, id)\<close> when \<open>shouldMerge\<close> is set, with \<open>id\<close> the id of the
  reference about to be stored.
\<close>

definition storeNewValue ::
    "nat \<Rightarrow> string \<Rightarrow> string \<Rightarrow> 'n StoreValue \<Rightarrow> (string \<times> string) option
      \<Rightarrow> 'n store_state \<Rightarrow> 'n store_state outcome" where
  "storeNewValue fuel dataId storeFieldName storeValue merge s =
     (let newStoreObj =
            \<lparr>ref = nextRef s,
             props = assign [] [map_option props (store s dataId),
                                Some [(storeFieldName, storeValue)]]\<rparr>;
          s0 = s\<lparr>nextRef := Suc (nextRef s)\<rparr>
      in case (case merge of
                 None \<Rightarrow> Ok s0
               | Some (generatedKey, realKey) \<Rightarrow> mergeWithGenerated fuel generatedKey realKey s0)
         of
           Ok s1 \<Rightarrow>
             if (case store s1 dataId of
                   None \<Rightarrow> True
                 | Some ent \<Rightarrow> strictNotEqual storeValue (map_of (props ent) storeFieldName))
             then Ok (s1\<lparr>store := (store s1)(dataId \<mapsto> newStoreObj)\<rparr>)
             else Ok s1
         | Throw e \<Rightarrow> Throw e
         | OutOfFuel \<Rightarrow> OutOfFuel)"

text \<open>
  The id of a nested object: \<open>dataId.storeFieldName\<close> with a \<open>$\<close> in front unless it has
  one, or the id \<open>dataIdFromObject\<close> gives, which must not begin with \<open>$\<close>. The result
  is the id and the \<open>generated\<close> flag. An id that is \<open>null\<close> or the empty string is
  falsy and counts as no id.
\<close>

definition objectDataId ::
    "'n write_context \<Rightarrow> string \<Rightarrow> string \<Rightarrow> 'n jsval \<Rightarrow> error + (string \<times> bool)" where
  "objectDataId ctx dataId storeFieldName v =
     (let valueDataId = dataId @ ''.'' @ storeFieldName;
          valueDataId = (if \<not> isGeneratedId valueDataId then ''$'' @ valueDataId else valueDataId)
      in case dataIdFromObject ctx of
           None \<Rightarrow> Inr (valueDataId, True)
         | Some idGetter \<Rightarrow>
             (case idGetter v of
                None \<Rightarrow> Inr (valueDataId, True)
              | Some semanticId \<Rightarrow>
                  if semanticId \<noteq> [] \<and> isGeneratedId semanticId then Inl IdentityViolation
                  else if semanticId \<noteq> [] then Inr (semanticId, False)
                  else Inr (valueDataId, True)))"

text \<open>The id of the element at \<open>index\<close> of a list field.\<close>

definition itemDataId :: "'n write_context \<Rightarrow> string \<Rightarrow> string \<Rightarrow> nat \<Rightarrow> 'n jsval \<Rightarrow> string" where
  "itemDataId ctx dataId storeFieldName index item =
     (let generatedId = dataId @ ''.'' @ storeFieldName @ ''.'' @ showNat index
      in case dataIdFromObject ctx of
           None \<Rightarrow> generatedId
         | Some idGetter \<Rightarrow>
             (case idGetter item of
                None \<Rightarrow> generatedId
              | Some semanticId \<Rightarrow> if semanticId \<noteq> [] then semanticId else generatedId))"

text \<open>
  The check made before a reference is stored at a slot whose entity exists:
  \<open>escapedId\<close> is the value now at the slot. It throws when a generated id would replace
  a real one, and otherwise says whether to merge, and from which generated key.
\<close>

definition checkOverwrite ::
    "string \<Rightarrow> bool \<Rightarrow> 'n StoreValue option \<Rightarrow> error + (string \<times> string) option" where
  "checkOverwrite valueDataId generated escapedId =
     (case escapedId of
        Some (IdValue oldId oldGenerated) \<Rightarrow>
          if generated \<and> \<not> oldGenerated then Inl (IdentityOverwrite oldId)
          else if oldGenerated then Inr (Some (oldId, valueDataId))
          else Inr None
      | _ \<Rightarrow> Inr None)"

text \<open>
  \<open>writeSelectionSetToStore\<close> runs over the selections, \<open>writeFieldToStore\<close> writes one
  field whose value is not \<open>undefined\<close>, and \<open>writeArrayItems\<close> is the \<open>forEach\<close> of the
  list branch, which returns \<open>thisIdList\<close>. The store is mutated in place: the model
  passes it along. A fragment may spread itself, so a spread takes one unit of fuel.
\<close>

function (sequential) writeSelectionSetToStore ::
    "nat \<Rightarrow> 'n write_context \<Rightarrow> string \<Rightarrow> 'n jsval \<Rightarrow> selection list
      \<Rightarrow> 'n store_state \<Rightarrow> 'n store_state outcome"
  and writeFieldToStore ::
    "nat \<Rightarrow> 'n write_context \<Rightarrow> string \<Rightarrow> field_node \<Rightarrow> selection list option \<Rightarrow> 'n jsval
      \<Rightarrow> 'n store_state \<Rightarrow> 'n store_state outcome"
  and writeArrayItems ::
    "nat \<Rightarrow> 'n write_context \<Rightarrow> string \<Rightarrow> string \<Rightarrow> selection list \<Rightarrow> nat \<Rightarrow> 'n jsval list
      \<Rightarrow> 'n store_state \<Rightarrow> (string option list \<times> 'n store_state) outcome"
where
  "writeSelectionSetToStore fuel ctx dataId result [] s = Ok s"
| "writeSelectionSetToStore fuel ctx dataId result (Field field selectionSet # rest) s =
     (case shouldInclude ctx (Field field selectionSet) (variables ctx) of
        Inl e \<Rightarrow> Throw e
      | Inr included \<Rightarrow>
          (case getProp (environment ctx) result (resultKeyNameFromField field) of
             Inl e \<Rightarrow> Throw e
           | Inr v \<Rightarrow>
               if v \<noteq> JUndefined then
                 (case writeFieldToStore fuel ctx dataId field selectionSet v s of
                    Ok s1 \<Rightarrow> writeSelectionSetToStore fuel ctx dataId result rest s1
                  | Throw e \<Rightarrow> Throw e
                  | OutOfFuel \<Rightarrow> OutOfFuel)
               else writeSelectionSetToStore fuel ctx dataId result rest s))"
| "writeSelectionSetToStore fuel ctx dataId result (InlineFragment dirs selections # rest) s =
     (case shouldInclude ctx (InlineFragment dirs selections) (variables ctx) of
        Inl e \<Rightarrow> Throw e
      | Inr included \<Rightarrow>
          if included then
            (case writeSelectionSetToStore fuel ctx dataId result selections s of
               Ok s1 \<Rightarrow> writeSelectionSetToStore fuel ctx dataId result rest s1
             | Throw e \<Rightarrow> Throw e
             | OutOfFuel \<Rightarrow> OutOfFuel)
          else writeSelectionSetToStore fuel ctx dataId result rest s)"
| "writeSelectionSetToStore fuel ctx dataId result (FragmentSpread fragmentName dirs # rest) s =
     (case shouldInclude ctx (FragmentSpread fragmentName dirs) (variables ctx) of
        Inl e \<Rightarrow> Throw e
      | Inr included \<Rightarrow>
          (case fragmentMap ctx fragmentName of
             None \<Rightarrow> Throw (NoFragment fragmentName)
           | Some selections \<Rightarrow>
               if included then
                 (case fuel of
                    0 \<Rightarrow> OutOfFuel
                  | Suc n \<Rightarrow>
                      (case writeSelectionSetToStore n ctx dataId result selections s of
                         Ok s1 \<Rightarrow> writeSelectionSetToStore fuel ctx dataId result rest s1
                       | Throw e \<Rightarrow> Throw e
                       | OutOfFuel \<Rightarrow> OutOfFuel))
               else writeSelectionSetToStore fuel ctx dataId result rest s))"
| "writeFieldToStore fuel ctx dataId field selectionSet v s =
     (case storeKeyNameFromField (Number ctx) (numberToJSON ctx) (environment ctx) field
             (variables ctx) of
        Inl e \<Rightarrow> Throw e
      | Inr storeFieldName \<Rightarrow>
          if (selectionSet = None \<or> v = JNull) \<and> \<not> isObject v then
            storeNewValue fuel dataId storeFieldName (Scalar v) None s
          else if (selectionSet = None \<or> v = JNull) \<and> isObject v then
            storeNewValue fuel dataId storeFieldName (JsonValue v) None s
          else
            (case selectionSet of
               None \<Rightarrow> Throw TypeError
             | Some selections \<Rightarrow>
                 (case v of
                    JArr items \<Rightarrow>
                      (case writeArrayItems fuel ctx dataId storeFieldName selections 0 items s of
                         Ok (thisIdList, s1) \<Rightarrow>
                           storeNewValue fuel dataId storeFieldName (IdList thisIdList) None s1
                       | Throw e \<Rightarrow> Throw e
                       | OutOfFuel \<Rightarrow> OutOfFuel)
                  | _ \<Rightarrow>
                      (case objectDataId ctx dataId storeFieldName v of
                         Inl e \<Rightarrow> Throw e
                       | Inr (valueDataId, generated) \<Rightarrow>
                           (case writeSelectionSetToStore fuel ctx valueDataId v selections s of
                              Ok s1 \<Rightarrow>
                                (case store s1 dataId of
                                   None \<Rightarrow>
                                     storeNewValue fuel dataId storeFieldName
                                       (IdValue valueDataId generated) None s1
                                 | Some ent \<Rightarrow>
                                     (case checkOverwrite valueDataId generated
                                             (map_of (props ent) storeFieldName) of
                                        Inl e \<Rightarrow> Throw e
                                      | Inr merge \<Rightarrow>
                                          storeNewValue fuel dataId storeFieldName
                                            (IdValue valueDataId generated) merge s1))
                            | Throw e \<Rightarrow> Throw e
                            | OutOfFuel \<Rightarrow> OutOfFuel)))))"
| "writeArrayItems fuel ctx dataId storeFieldName selections index [] s = Ok ([], s)"
| "writeArrayItems fuel ctx dataId storeFieldName selections index (item # items) s =
     (if item = JNull then
        (case writeArrayItems fuel ctx dataId storeFieldName selections (Suc index) items s of
           Ok (thisIdList, s2) \<Rightarrow> Ok (None # thisIdList, s2)
         | Throw e \<Rightarrow> Throw e
         | OutOfFuel \<Rightarrow> OutOfFuel)
      else
        (case writeSelectionSetToStore fuel ctx
                (itemDataId ctx dataId storeFieldName index item) item selections s of
           Ok s1 \<Rightarrow>
             (case writeArrayItems fuel ctx dataId storeFieldName selections (Suc index) items s1 of
                Ok (thisIdList, s2) \<Rightarrow>
                  Ok (Some (itemDataId ctx dataId storeFieldName index item) # thisIdList, s2)
              | Throw e \<Rightarrow> Throw e
              | OutOfFuel \<Rightarrow> OutOfFuel)
         | Throw e \<Rightarrow> Throw e
         | OutOfFuel \<Rightarrow> OutOfFuel))"
  by pat_completeness auto

text \<open>
  Termination: a fragment spread uses up fuel; every other call keeps the fuel and
  descends into the selection set, or (in the loop over the items) into the list.
\<close>

termination
  by (relation "inv_image (less_than <*lex*> less_than <*lex*> less_than <*lex*> less_than)
        (\<lambda>x. case x of
            Inl (fuel, ctx, dataId, result, sels, s) \<Rightarrow>
              (fuel, size_list size sels, 0::nat, 0::nat)
          | Inr (Inl (fuel, ctx, dataId, field, selectionSet, v, s)) \<Rightarrow>
              (fuel, size_option (size_list size) selectionSet, 0, 0)
          | Inr (Inr (fuel, ctx, dataId, storeFieldName, sels, index, items, s)) \<Rightarrow>
              (fuel, size_list size sels, 1, length items))")
     auto

declare writeFieldToStore.simps [simp del]

subsection \<open>Example inputs\<close>

text \<open>
  An environment for the example runs. None of them reads a property of a string, a
  number, a boolean or an array, assigns through a built-in object, serializes one or
  calls one, so that five of its parameters are never consulted and stand for those of
  any host; the one property read from a built-in function is one it does not have,
  and reads as \<open>undefined\<close>. A writer without \<open>dataIdFromObject\<close>, variables, fragments or directives,
  whose documents hold no numbers; a \<open>dataIdFromObject\<close> that returns the \<open>id\<close>
  property of an object when it is a string, and the writer that uses it; a field with
  no alias and no arguments.
\<close>

definition exEnv :: "unit environment" where
  "exEnv = \<lparr>primitiveGet = (\<lambda>v key. JUndefined), builtinGet = (\<lambda>b key. JUndefined),
     builtinSet = (\<lambda>b key. CreateOwn), builtinCallable = (\<lambda>path. False),
     builtinJSON = (\<lambda>path. None), callToJSON = (\<lambda>b this key. Inr None)\<rparr>"

definition exCtx :: "unit write_context" where
  "exCtx = \<lparr>variables = Map.empty, dataIdFromObject = None, fragmentMap = Map.empty,
     shouldInclude = (\<lambda>sel vars. Inr True), Number = (\<lambda>s. ()), numberToJSON = (\<lambda>n. ''0''),
     environment = exEnv\<rparr>"

definition idOfObject :: "'n jsval \<Rightarrow> string option" where
  "idOfObject obj =
     (case obj of
        JObj kvs \<Rightarrow> (case map_of kvs ''id'' of Some (JStr i) \<Rightarrow> Some i | _ \<Rightarrow> None)
      | _ \<Rightarrow> None)"

definition exUserCtx :: "unit write_context" where
  "exUserCtx = exCtx\<lparr>dataIdFromObject := Some idOfObject\<rparr>"

definition plainField :: "string \<Rightarrow> field_node" where
  "plainField nm = \<lparr>aliasName = None, name = nm, arguments = [], directives = []\<rparr>"


section \<open>graph/write: the graph writer\<close>

text \<open>
  A node of the graph holds its scalars and its references by field key. A reference
  is the id of a node, \<open>null\<close>, or for a list field an array of references.
\<close>

datatype GraphReference = GRef string | GNull | GList "GraphReference list"

record 'n GraphDataNode =
  scalars :: "(string \<times> 'n jsval) list"
  references :: "(string \<times> GraphReference) list"

type_synonym 'n GraphData = "string \<rightharpoonup> 'n GraphDataNode"

text \<open>
  The data \<open>writeToGraph\<close> returns: the scalar it was given, \<open>null\<close>, an array, or an
  object with its fields by response name, which carries the id of its node (when the
  id is a string) in the non-enumerable property \<open>ID_KEY\<close>.
\<close>

datatype 'n graph_data =
    DScalar "'n jsval"
  | DNull
  | DList "'n graph_data list"
  | DObject "string option" "(string \<times> 'n graph_data) list"

text \<open>
  What every call is given unchanged, and the built-in objects of the host.
  \<open>getFieldKey\<close> is defined in another module,
  \<open>graph/common\<close>: it is a parameter here, which answers or throws. \<open>getDataID\<close>
  returns a string or something that is not one (\<open>None\<close>). The selection kinds are the
  three of the GraphQL AST, so the \<open>default\<close> case of the \<open>switch\<close> is not reached.
\<close>

record 'n graph_context =
  fragments :: "string \<rightharpoonup> selection list"
  graphVariables :: "string \<rightharpoonup> 'n jsval"
  getDataID :: "'n jsval \<Rightarrow> string option"
  getFieldKey :: "field_node \<Rightarrow> (string \<rightharpoonup> 'n jsval) \<Rightarrow> error + string"
  graphEnvironment :: "'n environment"

text \<open>The errors that carry \<open>_partialWrite\<close>.\<close>

definition partialWrite :: "error \<Rightarrow> bool" where
  "partialWrite e = (case e of NoDataForField fieldName \<Rightarrow> True | _ \<Rightarrow> False)"

definition maybeAddTypeName :: "'n environment \<Rightarrow> string \<Rightarrow> 'n jsval \<Rightarrow> string" where
  "maybeAddTypeName env i d =
     (case getProp env d ''__typename'' of Inr (JStr t) \<Rightarrow> i @ '':'' @ t | _ \<Rightarrow> i)"

text \<open>\<open>typeof data === 'object'\<close> for a value that is not \<open>null\<close>.\<close>

definition typeofObject :: "'n environment \<Rightarrow> 'n jsval \<Rightarrow> bool" where
  "typeofObject env d = (isObject d \<and> \<not> isCallable env d)"

text \<open>\<open>id && text\<close>: \<open>null\<close> and the empty string are falsy and are the result.\<close>

definition andThen :: "string option \<Rightarrow> (string \<Rightarrow> string) \<Rightarrow> string option" where
  "andThen i f = (case i of None \<Rightarrow> None | Some j \<Rightarrow> if j = [] then Some j else Some (f j))"

text \<open>\<open>if (node) node.scalars[fieldKey] = fieldData\<close>, and the same for a reference.\<close>

definition setScalar :: "string option \<Rightarrow> string \<Rightarrow> 'n jsval \<Rightarrow> 'n GraphData \<Rightarrow> 'n GraphData" where
  "setScalar i fieldKey fieldData graph =
     (case i of
        None \<Rightarrow> graph
      | Some j \<Rightarrow>
          (case graph j of
             None \<Rightarrow> graph
           | Some node \<Rightarrow> graph(j \<mapsto> node\<lparr>scalars := setProp (scalars node) fieldKey fieldData\<rparr>)))"

definition setReference ::
    "string option \<Rightarrow> string \<Rightarrow> GraphReference \<Rightarrow> 'n GraphData \<Rightarrow> 'n GraphData" where
  "setReference i fieldKey r graph =
     (case i of
        None \<Rightarrow> graph
      | Some j \<Rightarrow>
          (case graph j of
             None \<Rightarrow> graph
           | Some node \<Rightarrow> graph(j \<mapsto> node\<lparr>references := setProp (references node) fieldKey r\<rparr>)))"

definition toReference :: "string option \<Rightarrow> GraphReference" where
  "toReference i = (case i of None \<Rightarrow> GNull | Some j \<Rightarrow> GRef j)"

text \<open>
  The graph is mutated in place, and a write that throws leaves its mutations behind:
  every call returns the graph as it stands together with its outcome.
  \<open>writeToGraph\<close> finds or creates the node and runs \<open>writeGraphSelections\<close>, the
  \<open>forEach\<close> over the selections, which builds the properties of \<open>nextData\<close>;
  \<open>writeArrayToStore\<close> runs over the items of an array from position \<open>index\<close>. The
  \<open>catch\<close> of a fragment swallows an error that carries \<open>_partialWrite\<close> and rethrows
  any other. A fragment may spread itself, so a spread takes one unit of fuel.
\<close>

function (sequential) writeToGraph ::
    "nat \<Rightarrow> 'n graph_context \<Rightarrow> string option \<Rightarrow> 'n jsval \<Rightarrow> selection list \<Rightarrow> 'n GraphData
      \<Rightarrow> 'n GraphData \<times> 'n graph_data outcome"
  and writeGraphSelections ::
    "nat \<Rightarrow> 'n graph_context \<Rightarrow> string option \<Rightarrow> 'n jsval \<Rightarrow> selection list
      \<Rightarrow> (string \<times> 'n graph_data) list \<Rightarrow> 'n GraphData
      \<Rightarrow> 'n GraphData \<times> (string \<times> 'n graph_data) list outcome"
  and writeArrayToStore ::
    "nat \<Rightarrow> 'n graph_context \<Rightarrow> string option \<Rightarrow> 'n jsval list \<Rightarrow> selection list \<Rightarrow> nat
      \<Rightarrow> 'n GraphData \<Rightarrow> 'n GraphData \<times> (GraphReference list \<times> 'n graph_data list) outcome"
where
  "writeToGraph fuel ctx i d selections graph =
     (case writeGraphSelections fuel ctx i d selections []
             (case i of
                None \<Rightarrow> graph
              | Some j \<Rightarrow>
                  (case graph j of
                     Some node \<Rightarrow> graph
                   | None \<Rightarrow> graph(j \<mapsto> \<lparr>scalars = [], references = []\<rparr>))) of
        (graph1, Ok nextData) \<Rightarrow> (graph1, Ok (DObject i nextData))
      | (graph1, Throw e) \<Rightarrow> (graph1, Throw e)
      | (graph1, OutOfFuel) \<Rightarrow> (graph1, OutOfFuel))"
| "writeGraphSelections fuel ctx i d [] nextData graph = (graph, Ok nextData)"
| "writeGraphSelections fuel ctx i d (Field field fieldSelectionSet # rest) nextData graph =
     (case getProp (graphEnvironment ctx) d (resultKeyNameFromField field) of
        Inl e \<Rightarrow> (graph, Throw e)
      | Inr fieldData \<Rightarrow>
          (case getFieldKey ctx field (graphVariables ctx) of
             Inl e \<Rightarrow> (graph, Throw e)
           | Inr fieldKey \<Rightarrow>
               if fieldData = JUndefined then
                 (graph, Throw (NoDataForField (resultKeyNameFromField field)))
               else
                 (case fieldSelectionSet of
                    None \<Rightarrow>
                      writeGraphSelections fuel ctx i d rest
                        (setProp nextData (resultKeyNameFromField field) (DScalar fieldData))
                        (setScalar i fieldKey fieldData graph)
                  | Some selections \<Rightarrow>
                      (case fieldData of
                         JNull \<Rightarrow>
                           writeGraphSelections fuel ctx i d rest
                             (setProp nextData (resultKeyNameFromField field) DNull)
                             (setReference i fieldKey GNull graph)
                       | JArr items \<Rightarrow>
                           (case writeArrayToStore fuel ctx
                                   (andThen i (\<lambda>j. j @ ''.'' @ fieldKey)) items selections 0 graph of
                              (graph1, Ok (fieldReference, nextFieldData)) \<Rightarrow>
                                writeGraphSelections fuel ctx i d rest
                                  (setProp nextData (resultKeyNameFromField field) (DList nextFieldData))
                                  (setReference i fieldKey (GList fieldReference) graph1)
                            | (graph1, Throw e) \<Rightarrow> (graph1, Throw e)
                            | (graph1, OutOfFuel) \<Rightarrow> (graph1, OutOfFuel))
                       | _ \<Rightarrow>
                           if \<not> typeofObject (graphEnvironment ctx) fieldData then
                             (graph, Throw (NotComposite (resultKeyNameFromField field)))
                           else
                           (case writeToGraph fuel ctx
                                   (case getDataID ctx fieldData of
                                      Some fieldDataID \<Rightarrow> Some (''('' @ fieldDataID @ '')'')
                                    | None \<Rightarrow>
                                        andThen i (\<lambda>j. maybeAddTypeName (graphEnvironment ctx) (j @ ''.'' @ fieldKey) fieldData))
                                   fieldData selections
                                   (setReference i fieldKey
                                      (toReference
                                         (case getDataID ctx fieldData of
                                            Some fieldDataID \<Rightarrow> Some (''('' @ fieldDataID @ '')'')
                                          | None \<Rightarrow>
                                              andThen i
                                                (\<lambda>j. maybeAddTypeName (graphEnvironment ctx) (j @ ''.'' @ fieldKey) fieldData)))
                                      graph) of
                              (graph1, Ok nextFieldData) \<Rightarrow>
                                writeGraphSelections fuel ctx i d rest
                                  (setProp nextData (resultKeyNameFromField field) nextFieldData) graph1
                            | (graph1, Throw e) \<Rightarrow> (graph1, Throw e)
                            | (graph1, OutOfFuel) \<Rightarrow> (graph1, OutOfFuel))))))"
| "writeGraphSelections fuel ctx i d (FragmentSpread fragmentName dirs # rest) nextData graph =
     (case fragments ctx fragmentName of
        None \<Rightarrow> (graph, Throw (NoFragment fragmentName))
      | Some selections \<Rightarrow>
          (case fuel of
             0 \<Rightarrow> (graph, OutOfFuel)
           | Suc n \<Rightarrow>
               (case writeToGraph n ctx i d selections graph of
                  (graph1, Ok (DObject fi fragmentData)) \<Rightarrow>
                    writeGraphSelections fuel ctx i d rest (assignProps nextData fragmentData) graph1
                | (graph1, Ok other) \<Rightarrow> writeGraphSelections fuel ctx i d rest nextData graph1
                | (graph1, Throw e) \<Rightarrow>
                    if partialWrite e then writeGraphSelections fuel ctx i d rest nextData graph1
                    else (graph1, Throw e)
                | (graph1, OutOfFuel) \<Rightarrow> (graph1, OutOfFuel))))"
| "writeGraphSelections fuel ctx i d (InlineFragment dirs selections # rest) nextData graph =
     (case writeToGraph fuel ctx i d selections graph of
        (graph1, Ok (DObject fi fragmentData)) \<Rightarrow>
          writeGraphSelections fuel ctx i d rest (assignProps nextData fragmentData) graph1
      | (graph1, Ok other) \<Rightarrow> writeGraphSelections fuel ctx i d rest nextData graph1
      | (graph1, Throw e) \<Rightarrow>
          if partialWrite e then writeGraphSelections fuel ctx i d rest nextData graph1
          else (graph1, Throw e)
      | (graph1, OutOfFuel) \<Rightarrow> (graph1, OutOfFuel))"
| "writeArrayToStore fuel ctx i [] selections index graph = (graph, Ok ([], []))"
| "writeArrayToStore fuel ctx i (itemData # items) selections index graph =
     (case
        (case itemData of
           JArr nested \<Rightarrow>
             (case writeArrayToStore fuel ctx
                     (andThen i (\<lambda>j. j @ ''['' @ showNat index @ '']'')) nested selections 0 graph of
                (graph1, Ok (itemReference, nextItemData)) \<Rightarrow>
                  (graph1, Ok (GList itemReference, DList nextItemData))
              | (graph1, Throw e) \<Rightarrow> (graph1, Throw e)
              | (graph1, OutOfFuel) \<Rightarrow> (graph1, OutOfFuel))
         | JNull \<Rightarrow> (graph, Ok (GNull, DNull))
         | _ \<Rightarrow>
             if \<not> typeofObject (graphEnvironment ctx) itemData then
               (graph, Throw (NotComposite ''array''))
             else
             (case writeToGraph fuel ctx
                     (case getDataID ctx itemData of
                        Some itemDataID \<Rightarrow> Some (''('' @ itemDataID @ '')'')
                      | None \<Rightarrow>
                          andThen i (\<lambda>j. maybeAddTypeName (graphEnvironment ctx) (j @ ''['' @ showNat index @ '']'') itemData))
                     itemData selections graph of
                (graph1, Ok nextItemData) \<Rightarrow>
                  (graph1,
                   Ok (toReference
                         (case getDataID ctx itemData of
                            Some itemDataID \<Rightarrow> Some (''('' @ itemDataID @ '')'')
                          | None \<Rightarrow>
                              andThen i
                                (\<lambda>j. maybeAddTypeName (graphEnvironment ctx) (j @ ''['' @ showNat index @ '']'') itemData)),
                       nextItemData))
              | (graph1, Throw e) \<Rightarrow> (graph1, Throw e)
              | (graph1, OutOfFuel) \<Rightarrow> (graph1, OutOfFuel)))
      of
        (graph1, Ok (itemReference, nextItemData)) \<Rightarrow>
          (case writeArrayToStore fuel ctx i items selections (Suc index) graph1 of
             (graph2, Ok (reference, nextData)) \<Rightarrow>
               (graph2, Ok (itemReference # reference, nextItemData # nextData))
           | (graph2, Throw e) \<Rightarrow> (graph2, Throw e)
           | (graph2, OutOfFuel) \<Rightarrow> (graph2, OutOfFuel))
      | (graph1, Throw e) \<Rightarrow> (graph1, Throw e)
      | (graph1, OutOfFuel) \<Rightarrow> (graph1, OutOfFuel))"
  by pat_completeness auto

termination
  by (relation "inv_image (less_than <*lex*> less_than <*lex*> less_than <*lex*> less_than)
        (\<lambda>x. case x of
            Inl (fuel, ctx, i, d, sels, graph) \<Rightarrow> (fuel, size_list size sels, 1::nat, 0::nat)
          | Inr (Inl (fuel, ctx, i, d, sels, nextData, graph)) \<Rightarrow> (fuel, size_list size sels, 0, 0)
          | Inr (Inr (fuel, ctx, i, items, sels, index, graph)) \<Rightarrow>
              (fuel, size_list size sels, 2, size_list size items))")
     auto

declare writeToGraph.simps [simp del]

text \<open>
  An example context for the graph writer: one named fragment \<open>F\<close> that selects the
  fields \<open>a\<close> and \<open>b\<close>, no ids from \<open>getDataID\<close>, and for \<open>getFieldKey\<close> the name of
  the field (the key of a field without arguments).
\<close>

definition exGraphCtx :: "unit graph_context" where
  "exGraphCtx =
     \<lparr>fragments = [''F'' \<mapsto> [Field (plainField ''a'') None, Field (plainField ''b'') None]],
      graphVariables = Map.empty,
      getDataID = (\<lambda>d. None),
      getFieldKey = (\<lambda>field vars. Inr (name field)),
      graphEnvironment = exEnv\<rparr>"

section \<open>The optimistic layer stack\<close>

text \<open>
  Modelled from the spec: the optimistic layer stack (\<open>recordOptimistic\<close>,
  \<open>removeOptimistic\<close> and the read through the stack) is missing from the sources,
  which hold only its tests. The definitions follow section 4.4 of the specification.
  A store maps an entity id to an entity, which maps a field key to a value; a layer
  carries the id of its mutation, the write function recorded for replay and the diff
  that function produced. The stack is listed from the bottom layer to the top one.
\<close>

type_synonym 'v layer_store = "string \<rightharpoonup> (string \<rightharpoonup> 'v)"

text \<open>
  Modelled from the spec: a write function (missing from the sources, see above) is
  applied to what the stack so far reads and to a fresh empty diff, and gives the diff.
\<close>

type_synonym 'v write_fn = "(string \<Rightarrow> string \<Rightarrow> 'v option) \<Rightarrow> 'v layer_store \<Rightarrow> 'v layer_store"

record 'v layer =
  mutationId :: string
  writeFn :: "'v write_fn"
  diff :: "'v layer_store"

record 'v layered_cache =
  base :: "'v layer_store"
  layers :: "'v layer list"

text \<open>
  Modelled from the spec: the read of one store (missing from the sources, see above):
  the value of a field of an entity, if the store defines it.
\<close>

definition readStore :: "'v layer_store \<Rightarrow> string \<Rightarrow> string \<Rightarrow> 'v option" where
  "readStore st i field = (case st i of None \<Rightarrow> None | Some obj \<Rightarrow> obj field)"

text \<open>
  Modelled from the spec: \<open>read(id, field)\<close> (missing from the sources, see above) scans
  the layers from the top to the bottom; the first layer that defines the field of the
  entity wins, otherwise the base is read. \<open>readLayers\<close> takes the stack top first.
\<close>

fun readLayers :: "'v layer_store \<Rightarrow> 'v layer list \<Rightarrow> string \<Rightarrow> string \<Rightarrow> 'v option" where
  "readLayers b [] i field = readStore b i field"
| "readLayers b (l # below) i field =
     (case readStore (diff l) i field of
        Some v \<Rightarrow> Some v
      | None \<Rightarrow> readLayers b below i field)"

definition readOptimistic :: "'v layered_cache \<Rightarrow> string \<Rightarrow> string \<Rightarrow> 'v option" where
  "readOptimistic c i field = readLayers (base c) (rev (layers c)) i field"

text \<open>
  Modelled from the spec: whether the effective store holds an entity (missing from the
  sources, see above): the base or some layer has an entry for its id.
\<close>

definition hasEntity :: "'v layered_cache \<Rightarrow> string \<Rightarrow> bool" where
  "hasEntity c i = (base c i \<noteq> None \<or> (\<exists>l \<in> set (layers c). diff l i \<noteq> None))"

text \<open>
  Modelled from the spec: pushing a layer (missing from the sources, see above) applies
  the write function to a fresh empty diff over the current effective store and puts
  the layer, tagged with the mutation id, on top.
\<close>

definition pushLayer :: "string \<Rightarrow> 'v write_fn \<Rightarrow> 'v layered_cache \<Rightarrow> 'v layered_cache" where
  "pushLayer m f c =
     c\<lparr>layers := layers c @ [\<lparr>mutationId = m, writeFn = f, diff = f (readOptimistic c) Map.empty\<rparr>]\<rparr>"

definition recordOptimistic :: "string \<Rightarrow> 'v write_fn \<Rightarrow> 'v layered_cache \<Rightarrow> 'v layered_cache" where
  "recordOptimistic m f c = pushLayer m f c"

text \<open>
  Modelled from the spec: \<open>remove(mutationId)\<close> (missing from the sources, see above)
  drops the matching layer, the lowest one tagged with the id, and rebases the layers
  above it: their recorded write functions run again, in the original order, each
  against the stack as rebuilt so far. A stack with no such layer is left as it is.
\<close>

definition removeOptimistic :: "string \<Rightarrow> 'v layered_cache \<Rightarrow> 'v layered_cache" where
  "removeOptimistic m c =
     (case dropWhile (\<lambda>l. mutationId l \<noteq> m) (layers c) of
        [] \<Rightarrow> c
      | l # upper \<Rightarrow>
          foldl (\<lambda>c' l'. pushLayer (mutationId l') (writeFn l') c')
            (c\<lparr>layers := takeWhile (\<lambda>l. mutationId l \<noteq> m) (layers c)\<rparr>) upper)"

text \<open>
  Modelled from the spec: an example stack (scenario 5 of the specification; the stack
  itself is missing from the sources, see above). The base holds a list of three todos,
  written here as text, and the write function adds an entity \<open>Todo99\<close> and puts it
  in front of the list it reads.
\<close>

definition exBase :: "string layer_store" where
  "exBase = [''TodoList5'' \<mapsto> [''todos'' \<mapsto> ''Todo3,Todo6,Todo12'']]"

definition exInsert :: "string write_fn" where
  "exInsert rd d =
     (d(''Todo99'' \<mapsto> [''text'' \<mapsto> ''Optimistically generated'']))
      (''TodoList5'' \<mapsto> [''todos'' \<mapsto>
          ''Todo99,'' @ (case rd ''TodoList5'' ''todos'' of None \<Rightarrow> [] | Some t \<Rightarrow> t)])"

section \<open>Properties of the field-key encoder\<close>

lemma setProp_keys:
  "map fst (setProp kvs k v) = (if k \<in> fst ` set kvs then map fst kvs else map fst kvs @ [k])"
  by (induction kvs) fastforce+

lemma setProp_keyset: "fst ` set (setProp kvs k v) = insert k (fst ` set kvs)"
proof -
  have "set (map fst (setProp kvs k v)) = insert k (set (map fst kvs))"
    unfolding setProp_keys by auto
  then show ?thesis by simp
qed

lemma setProp_fresh: "k \<notin> fst ` set kvs \<Longrightarrow> setProp kvs k v = kvs @ [(k, v)]"
  by (induction kvs) auto

lemma assignProperty_plain:
  "key \<noteq> ''__proto__'' \<Longrightarrow> assignProperty env (JObj kvs) key v = Inr (JObj (setProp kvs key v))"
  by (simp add: assignProperty_def ownProps_def protoOf_def mkObject_def)

lemma assignProperty_own:
  "key \<in> fst ` set kvs \<Longrightarrow> assignProperty env (JObj kvs) key v = Inr (JObj (setProp kvs key v))"
  by (simp add: assignProperty_def ownProps_def protoOf_def mkObject_def)

lemma assignProperty_proto_undefined:
  "''__proto__'' \<notin> fst ` set kvs \<Longrightarrow> assignProperty env (JObj kvs) ''__proto__'' JUndefined = Inr (JObj kvs)"
  by (simp add: assignProperty_def ownProps_def protoOf_def mkObject_def isObject_def)

text \<open>The value an argument is given does not depend on the object it is assigned to.\<close>

lemma valueToObjectRepresentation_assigns:
  "\<exists>r. \<forall>argObj. valueToObjectRepresentation num env argObj nm v vars
          = (case r of Inl e \<Rightarrow> Inl e | Inr w \<Rightarrow> assignProperty env argObj nm w)"
proof (cases v)
  case (IntValue s)
  then show ?thesis by (intro exI[of _ "Inr (JNum (num s))"]) simp
next
  case (FloatValue s)
  then show ?thesis by (intro exI[of _ "Inr (JNum (num s))"]) simp
next
  case (StringValue s)
  then show ?thesis by (intro exI[of _ "Inr (JStr s)"]) simp
next
  case (BooleanValue b)
  then show ?thesis by (intro exI[of _ "Inr (JBool b)"]) simp
next
  case (ObjectValue fs)
  then show ?thesis
    by (intro exI[of _ "fieldsToObjectRepresentation num env (JObj []) fs vars"])
      (simp split: sum.splits)
next
  case (Variable x)
  then show ?thesis by (intro exI[of _ "Inr (lookupVariable vars x)"]) simp
next
  case (ListValue vals)
  then show ?thesis
    by (intro exI[of _ "map_sum id JArr (listToObjectRepresentation num env nm vals vars)"])
      (simp split: sum.splits)
next
  case (EnumValue s)
  then show ?thesis by (intro exI[of _ "Inr (JStr s)"]) simp
next
  case (OtherValue kind)
  then show ?thesis by (intro exI[of _ "Inl (UnsupportedArgument nm kind)"]) simp
qed

lemma fieldsToObjectRepresentation_append:
  "fieldsToObjectRepresentation num env argObj (args @ rest) vars =
     (case fieldsToObjectRepresentation num env argObj args vars of
        Inl e \<Rightarrow> Inl e
      | Inr obj \<Rightarrow> fieldsToObjectRepresentation num env obj rest vars)"
proof (induction args arbitrary: argObj)
  case Nil
  show ?case by simp
next
  case (Cons a args)
  obtain nm v where a: "a = (nm, v)" by (cases a)
  show ?case unfolding a by (simp add: Cons.IH split: sum.splits)
qed

text \<open>
  Arguments none of which is named \<open>__proto__\<close> leave the prototype of the argument
  object alone, and its keys are the keys it had and the names of the arguments.
\<close>

lemma fieldsToObjectRepresentation_plain:
  "fieldsToObjectRepresentation num env (JObj kvs) args vars = Inr obj \<Longrightarrow>
   ''__proto__'' \<notin> fst ` set args \<Longrightarrow>
   \<exists>kvs'. obj = JObj kvs' \<and> fst ` set kvs' = fst ` set kvs \<union> fst ` set args"
proof (induction args arbitrary: kvs)
  case Nil
  then show ?case by auto
next
  case (Cons a args)
  obtain nm v where a: "a = (nm, v)" by (cases a)
  from Cons.prems(2) a have np: "nm \<noteq> ''__proto__''" and rest: "''__proto__'' \<notin> fst ` set args"
    by auto
  from valueToObjectRepresentation_assigns[of num env nm v vars] obtain r where
    r: "\<And>argObj. valueToObjectRepresentation num env argObj nm v vars
          = (case r of Inl e \<Rightarrow> Inl e | Inr w \<Rightarrow> assignProperty env argObj nm w)"
    by blast
  from Cons.prems(1) a r obtain w where w: "r = Inr w"
    by (cases r) auto
  with Cons.prems(1) a r np
  have run: "fieldsToObjectRepresentation num env (JObj (setProp kvs nm w)) args vars = Inr obj"
    by (simp add: assignProperty_plain)
  from Cons.IH[OF run rest] obtain kvs' where
    "obj = JObj kvs'" "fst ` set kvs' = fst ` set (setProp kvs nm w) \<union> fst ` set args"
    by blast
  then show ?case using a by (auto simp: setProp_keyset)
qed

lemma fieldsToObjectRepresentation_keys:
  "fieldsToObjectRepresentation num env (JObj kvs) args vars = Inr obj \<Longrightarrow>
   distinct (map fst args) \<Longrightarrow> ''__proto__'' \<notin> fst ` set args \<Longrightarrow>
   fst ` set args \<inter> fst ` set kvs = {} \<Longrightarrow>
   \<exists>kvs'. obj = JObj kvs' \<and> map fst kvs' = map fst kvs @ map fst args"
proof (induction args arbitrary: kvs)
  case Nil
  then show ?case by auto
next
  case (Cons a args)
  obtain nm v where a: "a = (nm, v)" by (cases a)
  from Cons.prems(3) a have np: "nm \<noteq> ''__proto__''" and rest: "''__proto__'' \<notin> fst ` set args"
    by auto
  from valueToObjectRepresentation_assigns[of num env nm v vars] obtain r where
    r: "\<And>argObj. valueToObjectRepresentation num env argObj nm v vars
          = (case r of Inl e \<Rightarrow> Inl e | Inr w \<Rightarrow> assignProperty env argObj nm w)"
    by blast
  from Cons.prems(1) a r obtain w where w: "r = Inr w"
    by (cases r) auto
  with Cons.prems(1) a r np
  have run: "fieldsToObjectRepresentation num env (JObj (setProp kvs nm w)) args vars = Inr obj"
    by (simp add: assignProperty_plain)
  from Cons.prems(4) a have fresh: "nm \<notin> fst ` set kvs" by auto
  have k1: "map fst (setProp kvs nm w) = map fst kvs @ [nm]"
    using fresh by (simp add: setProp_keys)
  have d: "distinct (map fst args)" using Cons.prems(2) by simp
  have "fst ` set args \<inter> fst ` set (setProp kvs nm w) = {}"
  proof -
    have "fst ` set (setProp kvs nm w) = set (map fst (setProp kvs nm w))" by simp
    also have "\<dots> = fst ` set kvs \<union> {nm}" unfolding k1 by auto
    finally show ?thesis using Cons.prems(2,4) a by auto
  qed
  from Cons.IH[OF run d rest this] show ?case using k1 a by simp
qed


text \<open>A property that holds \<open>undefined\<close> can be taken out of an object without a trace.\<close>

lemma setProp_filter:
  "nm \<noteq> x \<Longrightarrow>
   setProp (filter (\<lambda>kv. fst kv \<noteq> x) kvs) nm w = filter (\<lambda>kv. fst kv \<noteq> x) (setProp kvs nm w)"
  by (induction kvs) auto

lemma setProp_other_entries:
  "nm \<noteq> x \<Longrightarrow> (x, v) \<in> set (setProp kvs nm w) \<longleftrightarrow> (x, v) \<in> set kvs"
  by (induction kvs) (auto split: if_splits)

lemma fieldsToObjectRepresentation_filter:
  "x \<notin> fst ` set args \<Longrightarrow> ''__proto__'' \<notin> fst ` set args \<Longrightarrow>
   fieldsToObjectRepresentation num env (JObj (filter (\<lambda>kv. fst kv \<noteq> x) kvs)) args vars
     = (case fieldsToObjectRepresentation num env (JObj kvs) args vars of
          Inl e \<Rightarrow> Inl e
        | Inr obj \<Rightarrow> Inr (JObj (filter (\<lambda>kv. fst kv \<noteq> x) (ownProps obj))))"
proof (induction args arbitrary: kvs)
  case Nil
  show ?case by (simp add: ownProps_def)
next
  case (Cons a args)
  obtain nm v where a: "a = (nm, v)" by (cases a)
  from Cons.prems a have nx: "nm \<noteq> x" and np: "nm \<noteq> ''__proto__''"
    and rx: "x \<notin> fst ` set args" and rp: "''__proto__'' \<notin> fst ` set args"
    by auto
  from valueToObjectRepresentation_assigns[of num env nm v vars] obtain r where
    r: "\<And>argObj. valueToObjectRepresentation num env argObj nm v vars
          = (case r of Inl e \<Rightarrow> Inl e | Inr w \<Rightarrow> assignProperty env argObj nm w)"
    by blast
  show ?case
  proof (cases r)
    case (Inl e)
    then show ?thesis unfolding a by (simp add: r)
  next
    case (Inr w)
    then show ?thesis unfolding a
      by (simp add: r assignProperty_plain[OF np] setProp_filter[OF nx] Cons.IH[OF rx rp])
  qed
qed

lemma fieldsToObjectRepresentation_entries:
  "fieldsToObjectRepresentation num env (JObj kvs) args vars = Inr obj \<Longrightarrow>
   x \<notin> fst ` set args \<Longrightarrow> ''__proto__'' \<notin> fst ` set args \<Longrightarrow>
   (x, v) \<in> set (ownProps obj) \<longleftrightarrow> (x, v) \<in> set kvs"
proof (induction args arbitrary: kvs)
  case Nil
  then show ?case by (auto simp: ownProps_def)
next
  case (Cons a args)
  obtain nm u where a: "a = (nm, u)" by (cases a)
  from Cons.prems a have nx: "nm \<noteq> x" and np: "nm \<noteq> ''__proto__''"
    and rx: "x \<notin> fst ` set args" and rp: "''__proto__'' \<notin> fst ` set args"
    by auto
  from valueToObjectRepresentation_assigns[of num env nm u vars] obtain r where
    r: "\<And>argObj. valueToObjectRepresentation num env argObj nm u vars
          = (case r of Inl e \<Rightarrow> Inl e | Inr w \<Rightarrow> assignProperty env argObj nm w)"
    by blast
  from Cons.prems(1) a r obtain w where w: "r = Inr w"
    by (cases r) auto
  with Cons.prems(1) a r np
  have run: "fieldsToObjectRepresentation num env (JObj (setProp kvs nm w)) args vars = Inr obj"
    by (simp add: assignProperty_plain)
  from Cons.IH[OF run rx rp] setProp_other_entries[OF nx] show ?case by simp
qed

lemma serializeJSONObject_filter:
  "\<forall>v. (x, v) \<in> set kvs \<longrightarrow> v = JUndefined \<Longrightarrow>
   serializeJSONObject env shw (filter (\<lambda>kv. fst kv \<noteq> x) kvs) = serializeJSONObject env shw kvs"
proof (induction kvs)
  case Nil
  show ?case by simp
next
  case (Cons a kvs)
  obtain k v where a: "a = (k, v)" by (cases a)
  from Cons.prems have rest: "\<forall>v. (x, v) \<in> set kvs \<longrightarrow> v = JUndefined" by simp
  show ?case
  proof (cases "k = x")
    case True
    with Cons.prems a have "v = JUndefined" by simp
    with True a Cons.IH[OF rest] show ?thesis by (simp split: sum.splits)
  next
    case False
    with a Cons.IH[OF rest] show ?thesis by (simp cong: sum.case_cong)
  qed
qed

lemma map_of_filter_other:
  "k \<noteq> x \<Longrightarrow> map_of (filter (\<lambda>kv. fst kv \<noteq> x) kvs) k = map_of kvs k"
  by (induction kvs) auto

lemma map_of_filter_same: "map_of (filter (\<lambda>kv. fst kv \<noteq> x) kvs) x = None"
  by (induction kvs) auto

lemma toJSONMethod_filter:
  assumes "\<forall>v. (x, v) \<in> set kvs \<longrightarrow> v = JUndefined"
  shows "toJSONMethod env (JObj (filter (\<lambda>kv. fst kv \<noteq> x) kvs)) = toJSONMethod env (JObj kvs)"
proof (cases "x = ''toJSON''")
  case False
  then show ?thesis
    by (simp add: toJSONMethod_def getV_def map_of_filter_other)
next
  case True
  have "map_of kvs x = None \<or> map_of kvs x = Some JUndefined"
    using assms by (cases "map_of kvs x") (auto dest: map_of_SomeD)
  with True show ?thesis
    by (auto simp: toJSONMethod_def getV_def map_of_filter_same objectPrototypeGet_def
        objectPrototypeMethods_def)
qed

lemma JSON_stringify_filter:
  "\<forall>v. (x, v) \<in> set kvs \<longrightarrow> v = JUndefined \<Longrightarrow> toJSONMethod env (JObj kvs) = None \<Longrightarrow>
   JSON_stringify env shw (JObj (filter (\<lambda>kv. fst kv \<noteq> x) kvs)) = JSON_stringify env shw (JObj kvs)"
  by (simp add: JSON_stringify_def toJSONMethod_filter serializeJSONObject_filter)

lemma filter_fresh: "x \<notin> fst ` set kvs \<Longrightarrow> filter (\<lambda>kv. fst kv \<noteq> x) kvs = kvs"
  by (induction kvs) auto

lemma lookupVariable_undefined:
  "lookupVariable vars v = JUndefined \<longleftrightarrow>
     vars v = Some JUndefined
     \<or> (vars v = None \<and> v \<noteq> ''__proto__'' \<and> v \<notin> set objectPrototypeMethods)"
  by (auto simp: lookupVariable_def objectPrototypeGet_def split: option.splits)

lemma toJSONMethod_None:
  "\<forall>y. (''toJSON'', y) \<in> set kvs \<longrightarrow> y = JUndefined \<Longrightarrow> toJSONMethod env (JObj kvs) = None"
proof -
  assume u: "\<forall>y. (''toJSON'', y) \<in> set kvs \<longrightarrow> y = JUndefined"
  have "map_of kvs ''toJSON'' = None \<or> map_of kvs ''toJSON'' = Some JUndefined"
    using u by (cases "map_of kvs ''toJSON''") (auto dest: map_of_SomeD)
  then show ?thesis
    by (auto simp: toJSONMethod_def getV_def objectPrototypeGet_def objectPrototypeMethods_def)
qed

lemma valueToObjectRepresentation_undefined:
  "lookupVariable vars v = JUndefined \<Longrightarrow>
   valueToObjectRepresentation num env (JObj kvs) x (Variable v) vars
     = Inr (JObj (if x = ''__proto__'' \<and> x \<notin> fst ` set kvs then kvs
                  else setProp kvs x JUndefined))"
proof (cases "x = ''__proto__''")
  case False
  assume "lookupVariable vars v = JUndefined"
  with False show ?thesis by (simp add: assignProperty_plain)
next
  case True
  assume u: "lookupVariable vars v = JUndefined"
  show ?thesis
  proof (cases "x \<in> fst ` set kvs")
    case True
    with u show ?thesis by (simp add: assignProperty_own)
  next
    case False
    with True u show ?thesis by (simp add: assignProperty_proto_undefined)
  qed
qed

text \<open>
  Claim C9, as stated, fails for a variable that the environment does not bind but
  whose name is a property of \<open>Object.prototype\<close>. The variable \<open>$__proto__\<close> reads as
  \<open>Object.prototype\<close>, which is serialized as an empty object: the argument stays in
  the key. The variable \<open>$toString\<close> reads as a function, not as \<open>undefined\<close> (the
  serialization does leave a function out).
\<close>

theorem unbound_variable_proto_counterexample:
  \<open>(Map.empty :: string \<rightharpoonup> unit jsval) ''__proto__'' = None
   \<and> storeKeyNameFromField (\<lambda>s. ()) (\<lambda>n. ''0'') exEnv
         \<lparr>aliasName = None, name = ''f'', arguments = [(''x'', Variable ''__proto__'')],
          directives = []\<rparr> Map.empty
       = Inr ''f({"x":{}})''
   \<and> storeKeyNameFromField (\<lambda>s. ()) (\<lambda>n. ''0'') exEnv
         \<lparr>aliasName = None, name = ''f'', arguments = [(''x'', Variable ''__proto__'')],
          directives = []\<rparr> Map.empty
       \<noteq> Inr ''f({})''
   \<and> (Map.empty :: string \<rightharpoonup> unit jsval) ''toString'' = None
   \<and> valueToObjectRepresentation (\<lambda>s. ()) exEnv (JObj []) ''x'' (Variable ''toString'')
         (Map.empty :: string \<rightharpoonup> unit jsval)
       = Inr (JObj [(''x'', JBuiltin (ObjectMethod ''toString''))])
   \<and> valueToObjectRepresentation (\<lambda>s. ()) exEnv (JObj []) ''x'' (Variable ''toString'')
         (Map.empty :: string \<rightharpoonup> unit jsval)
       \<noteq> Inr (JObj [(''x'', JUndefined)])\<close>
  by (simp add: storeKeyNameFromField_def storeKeyNameFromFieldNameAndArgs_def JSON_stringify_def
      lookupVariable_def objectPrototypeGet_def assignProperty_def ownProps_def protoOf_def
      mkObject_def toJSONMethod_def getV_def objectPrototypeMethods_def
      quoteJSONString_def quoteChar_def)

text \<open>
  Claim C9, amended. In the field-key encoder an argument whose value is a variable
  that reads as \<open>undefined\<close> from the environment (a variable the environment does not
  bind, other than \<open>__proto__\<close> and the names of the functions of \<open>Object.prototype\<close>, or
  one it binds to \<open>undefined\<close>) is assigned \<open>undefined\<close> to an argument object that has
  its original prototype, and no error is raised; the serialization leaves the argument
  out of the store key: a field \<open>f\<close> whose only argument is such a variable has the key
  \<open>f({})\<close>, and among other arguments, wherever it stands, the key is the one the field
  has without that argument (when no other argument has its name, or the name
  \<open>__proto__\<close> or \<open>toJSON\<close>). The lemma \<open>lookupVariable_undefined\<close> above says which
  variables read as \<open>undefined\<close>.
\<close>

theorem unbound_variable_omitted:
  "lookupVariable vars v = JUndefined \<longrightarrow>
     valueToObjectRepresentation num env (JObj kvs) x (Variable v) vars
       = Inr (JObj (if x = ''__proto__'' \<and> x \<notin> fst ` set kvs then kvs
                    else setProp kvs x JUndefined))
   \<and> storeKeyNameFromField num shw env
         \<lparr>aliasName = a, name = f, arguments = [(x, Variable v)], directives = d\<rparr> vars
       = Inr (f @ ''({})'')
   \<and> (pre @ post \<noteq> [] \<and> x \<notin> fst ` set (pre @ post) \<and> ''__proto__'' \<notin> fst ` set (pre @ post)
        \<and> ''toJSON'' \<notin> fst ` set (pre @ post) \<longrightarrow>
        storeKeyNameFromField num shw env
          \<lparr>aliasName = a, name = f, arguments = pre @ (x, Variable v) # post, directives = d\<rparr> vars
        = storeKeyNameFromField num shw env
          \<lparr>aliasName = a, name = f, arguments = pre @ post, directives = d\<rparr> vars)"
proof (intro impI conjI)
  assume u: "lookupVariable vars v = JUndefined"
  show "valueToObjectRepresentation num env (JObj kvs) x (Variable v) vars
       = Inr (JObj (if x = ''__proto__'' \<and> x \<notin> fst ` set kvs then kvs
                    else setProp kvs x JUndefined))"
    using u by (rule valueToObjectRepresentation_undefined)
  have one: "fieldsToObjectRepresentation num env (JObj []) [(x, Variable v)] vars
      = Inr (JObj (if x = ''__proto__'' then [] else [(x, JUndefined)]))"
    using valueToObjectRepresentation_undefined[OF u, of num env "[]" x] by simp
  have "JSON_stringify env shw (JObj (if x = ''__proto__'' then [] else [(x, JUndefined)]))
      = Inr ''{}''"
    by (simp add: JSON_stringify_def toJSONMethod_None)
  with one show "storeKeyNameFromField num shw env
         \<lparr>aliasName = a, name = f, arguments = [(x, Variable v)], directives = d\<rparr> vars
       = Inr (f @ ''({})'')"
    by (simp add: storeKeyNameFromField_def storeKeyNameFromFieldNameAndArgs_def)
next
  assume u: "lookupVariable vars v = JUndefined"
    and h: "pre @ post \<noteq> [] \<and> x \<notin> fst ` set (pre @ post) \<and> ''__proto__'' \<notin> fst ` set (pre @ post)
        \<and> ''toJSON'' \<notin> fst ` set (pre @ post)"
  let ?P = "\<lambda>kv :: string \<times> 'a jsval. fst kv \<noteq> x"
  let ?with = "fieldsToObjectRepresentation num env (JObj []) (pre @ (x, Variable v) # post) vars"
  let ?without = "fieldsToObjectRepresentation num env (JObj []) (pre @ post) vars"
  from h have xpre: "x \<notin> fst ` set pre" and xpost: "x \<notin> fst ` set post"
    and ppre: "''__proto__'' \<notin> fst ` set pre" and ppost: "''__proto__'' \<notin> fst ` set post"
    and tpre: "''toJSON'' \<notin> fst ` set pre" and tpost: "''toJSON'' \<notin> fst ` set post"
    by auto
  have rel: "?without = (case ?with of Inl e \<Rightarrow> Inl e
                         | Inr obj \<Rightarrow> Inr (JObj (filter ?P (ownProps obj))))
      \<and> (\<forall>obj. ?with = Inr obj \<longrightarrow>
            (\<exists>kvs'. obj = JObj kvs' \<and> (\<forall>y. (x, y) \<in> set kvs' \<longrightarrow> y = JUndefined)
               \<and> (\<forall>y. (''toJSON'', y) \<in> set kvs' \<longrightarrow> y = JUndefined)))"
  proof (cases "fieldsToObjectRepresentation num env (JObj []) pre vars")
    case (Inl e)
    then show ?thesis by (simp add: fieldsToObjectRepresentation_append)
  next
    case (Inr o1)
    from fieldsToObjectRepresentation_plain[OF Inr ppre] obtain k1 where
      o1: "o1 = JObj k1" and keys1: "fst ` set k1 = fst ` set pre"
      by auto
    define k1' where "k1' = (if x = ''__proto__'' \<and> x \<notin> fst ` set k1 then k1
                              else setProp k1 x JUndefined)"
    from keys1 xpre have fresh: "x \<notin> fst ` set k1" by simp
    have k1': "k1' = k1 \<or> k1' = k1 @ [(x, JUndefined)]"
      unfolding k1'_def using fresh by (simp add: setProp_fresh)
    then have f1: "filter ?P k1' = k1" using fresh by (auto simp: filter_fresh)
    have step: "valueToObjectRepresentation num env (JObj k1) x (Variable v) vars = Inr (JObj k1')"
      unfolding k1'_def using u by (rule valueToObjectRepresentation_undefined)
    have w: "?with = fieldsToObjectRepresentation num env (JObj k1') post vars"
      using Inr o1 step by (simp add: fieldsToObjectRepresentation_append)
    have wo: "?without = fieldsToObjectRepresentation num env (JObj (filter ?P k1')) post vars"
      using Inr o1 f1 by (simp add: fieldsToObjectRepresentation_append)
    have a1: "?without = (case ?with of Inl e \<Rightarrow> Inl e
                         | Inr obj \<Rightarrow> Inr (JObj (filter ?P (ownProps obj))))"
      unfolding w wo by (rule fieldsToObjectRepresentation_filter[OF xpost ppost])
    have a2: "\<forall>obj. ?with = Inr obj \<longrightarrow>
            (\<exists>kvs'. obj = JObj kvs' \<and> (\<forall>y. (x, y) \<in> set kvs' \<longrightarrow> y = JUndefined)
               \<and> (\<forall>y. (''toJSON'', y) \<in> set kvs' \<longrightarrow> y = JUndefined))"
    proof (intro allI impI)
      fix obj assume "?with = Inr obj"
      then have run: "fieldsToObjectRepresentation num env (JObj k1') post vars = Inr obj"
        unfolding w .
      from fieldsToObjectRepresentation_plain[OF run ppost] obtain k2 where
        o2: "obj = JObj k2" and keys2: "fst ` set k2 = fst ` set k1' \<union> fst ` set post"
        by auto
      have "\<And>y. (x, y) \<notin> set k1" using fresh by (metis fst_conv image_eqI)
      then have x1: "\<forall>y. (x, y) \<in> set k1' \<longrightarrow> y = JUndefined"
        using k1' by auto
      have x2: "\<forall>y. (x, y) \<in> set k2 \<longrightarrow> y = JUndefined"
        using fieldsToObjectRepresentation_entries[OF run xpost ppost] x1 o2
        by (simp add: ownProps_def)
      have t2: "\<forall>y. (''toJSON'', y) \<in> set k2 \<longrightarrow> y = JUndefined"
      proof (intro allI impI)
        fix y assume m: "(''toJSON'', y) \<in> set k2"
        then have "''toJSON'' \<in> fst ` set k2" by (metis fst_conv image_eqI)
        with keys2 tpost have "''toJSON'' \<in> fst ` set k1'" by simp
        moreover from keys1 tpre have "''toJSON'' \<notin> fst ` set k1" by simp
        ultimately have "x = ''toJSON''" using k1' by auto
        with m x2 show "y = JUndefined" by simp
      qed
      from o2 x2 t2 show "\<exists>kvs'. obj = JObj kvs' \<and> (\<forall>y. (x, y) \<in> set kvs' \<longrightarrow> y = JUndefined)
               \<and> (\<forall>y. (''toJSON'', y) \<in> set kvs' \<longrightarrow> y = JUndefined)"
        by blast
    qed
    from a1 a2 show ?thesis ..
  qed
  show "storeKeyNameFromField num shw env
          \<lparr>aliasName = a, name = f, arguments = pre @ (x, Variable v) # post, directives = d\<rparr> vars
        = storeKeyNameFromField num shw env
          \<lparr>aliasName = a, name = f, arguments = pre @ post, directives = d\<rparr> vars"
  proof (cases ?with)
    case (Inl e)
    with rel h show ?thesis by (simp add: storeKeyNameFromField_def)
  next
    case (Inr obj)
    with rel obtain kvs' where o: "obj = JObj kvs'"
      and xu: "\<forall>y. (x, y) \<in> set kvs' \<longrightarrow> y = JUndefined"
      and tu: "\<forall>y. (''toJSON'', y) \<in> set kvs' \<longrightarrow> y = JUndefined"
      by blast
    from rel Inr o have wo: "?without = Inr (JObj (filter ?P kvs'))"
      by (simp add: ownProps_def)
    from JSON_stringify_filter[OF xu toJSONMethod_None[OF tu], of env shw]
    show ?thesis using Inr o wo h
      by (simp add: storeKeyNameFromField_def storeKeyNameFromFieldNameAndArgs_def)
  qed
qed

theorem unbound_variable_omitted_witness:
  \<open>lookupVariable (Map.empty :: string \<rightharpoonup> unit jsval) ''v'' = JUndefined
   \<and> valueToObjectRepresentation (\<lambda>s. ()) exEnv (JObj []) ''x'' (Variable ''v'') Map.empty
       = Inr (JObj [(''x'', JUndefined)])
   \<and> storeKeyNameFromField (\<lambda>s. ()) (\<lambda>n. ''0'') exEnv
         \<lparr>aliasName = None, name = ''f'', arguments = [(''x'', Variable ''v'')], directives = []\<rparr>
         Map.empty
       = Inr ''f({})''
   \<and> storeKeyNameFromField (\<lambda>s. ()) (\<lambda>n. ''0'') exEnv
         \<lparr>aliasName = None, name = ''f'',
          arguments = [(''a'', BooleanValue True)] @ (''x'', Variable ''v'') # [(''b'', StringValue ''s'')],
          directives = []\<rparr> Map.empty
       = Inr ''f({"a":true,"b":"s"})''\<close>
proof -
  let ?vars = "Map.empty :: string \<rightharpoonup> unit jsval"
  let ?pre = "[(''a'', BooleanValue True)]" and ?post = "[(''b'', StringValue ''s'')]"
  have h: "lookupVariable ?vars ''v'' = JUndefined"
    by (simp add: lookupVariable_def objectPrototypeGet_def objectPrototypeMethods_def)
  note t = unbound_variable_omitted [where vars = ?vars and v = "''v''" and num = "\<lambda>s. ()"
      and env = exEnv and kvs = "[]" and x = "''x''" and shw = "\<lambda>n. ''0''" and a = None
      and f = "''f''" and d = "[]" and pre = ?pre and post = ?post]
  note c = mp [OF t h]
  from c [THEN conjunct1]
  have r1: "valueToObjectRepresentation (\<lambda>s. ()) exEnv (JObj []) ''x'' (Variable ''v'') ?vars
       = Inr (JObj [(''x'', JUndefined)])"
    by simp
  from c [THEN conjunct2, THEN conjunct1]
  have r2: "storeKeyNameFromField (\<lambda>s. ()) (\<lambda>n. ''0'') exEnv
         \<lparr>aliasName = None, name = ''f'', arguments = [(''x'', Variable ''v'')], directives = []\<rparr>
         ?vars = Inr ''f({})''"
    by simp
  have sc: "?pre @ ?post \<noteq> [] \<and> ''x'' \<notin> fst ` set (?pre @ ?post)
      \<and> ''__proto__'' \<notin> fst ` set (?pre @ ?post) \<and> ''toJSON'' \<notin> fst ` set (?pre @ ?post)"
    by simp
  have e: \<open>storeKeyNameFromField (\<lambda>s. ()) (\<lambda>n. ''0'') exEnv
         \<lparr>aliasName = None, name = ''f'', arguments = ?pre @ ?post, directives = []\<rparr> ?vars
       = Inr ''f({"a":true,"b":"s"})''\<close>
    by (simp add: storeKeyNameFromField_def storeKeyNameFromFieldNameAndArgs_def JSON_stringify_def
      assignProperty_plain toJSONMethod_def getV_def objectPrototypeGet_def
      objectPrototypeMethods_def quoteJSONString_def quoteChar_def)
  from mp [OF c [THEN conjunct2, THEN conjunct2] sc] e
  have r3: \<open>storeKeyNameFromField (\<lambda>s. ()) (\<lambda>n. ''0'') exEnv
         \<lparr>aliasName = None, name = ''f'',
          arguments = ?pre @ (''x'', Variable ''v'') # ?post, directives = []\<rparr> ?vars
       = Inr ''f({"a":true,"b":"s"})''\<close>
    by simp
  from h r1 r2 r3 show ?thesis by (intro conjI)
qed

text \<open>
  Claim C1, as stated, fails: the argument object is serialized in the order its keys
  were written. The two object literals below hold the same two entries in the two
  orders, and the store keys differ.
\<close>

theorem storeKey_key_order_counterexample:
  \<open>set [(''a'', BooleanValue True), (''b'', BooleanValue False)]
     = set [(''b'', BooleanValue False), (''a'', BooleanValue True)]
   \<and> storeKeyNameFromField (\<lambda>s. ()) (\<lambda>n. ''0'') exEnv
       \<lparr>aliasName = None, name = ''todos'',
        arguments = [(''filter'', ObjectValue [(''a'', BooleanValue True), (''b'', BooleanValue False)])],
        directives = []\<rparr> Map.empty
     = Inr ''todos({"filter":{"a":true,"b":false}})''
   \<and> storeKeyNameFromField (\<lambda>s. ()) (\<lambda>n. ''0'') exEnv
       \<lparr>aliasName = None, name = ''todos'',
        arguments = [(''filter'', ObjectValue [(''b'', BooleanValue False), (''a'', BooleanValue True)])],
        directives = []\<rparr> Map.empty
     = Inr ''todos({"filter":{"b":false,"a":true}})''
   \<and> storeKeyNameFromField (\<lambda>s. ()) (\<lambda>n. ''0'') exEnv
       \<lparr>aliasName = None, name = ''todos'',
        arguments = [(''filter'', ObjectValue [(''a'', BooleanValue True), (''b'', BooleanValue False)])],
        directives = []\<rparr> Map.empty
     \<noteq> storeKeyNameFromField (\<lambda>s. ()) (\<lambda>n. ''0'') exEnv
       \<lparr>aliasName = None, name = ''todos'',
        arguments = [(''filter'', ObjectValue [(''b'', BooleanValue False), (''a'', BooleanValue True)])],
        directives = []\<rparr> Map.empty\<close>
  by (auto simp add: storeKeyNameFromField_def storeKeyNameFromFieldNameAndArgs_def JSON_stringify_def
      assignProperty_plain toJSONMethod_def getV_def objectPrototypeGet_def
      objectPrototypeMethods_def quoteJSONString_def quoteChar_def)

text \<open>
  Claim C1, amended. The store key is a function of the field's name, its argument list
  in source order and the variables, and of nothing else of the field (not of the alias
  nor of the directives). It is the name alone when the field has no arguments;
  otherwise a key the encoder returns is \<open>name(J)\<close>, where \<open>J\<close> is the \<open>JSON.stringify\<close>
  text of the argument object, whose keys stand in the order the arguments were
  written (for arguments of distinct names, none of them \<open>__proto__\<close>).
\<close>

theorem storeKey_insertion_order:
  "(arguments field = [] \<longrightarrow> storeKeyNameFromField num shw env field vars = Inr (name field))
   \<and> (arguments field \<noteq> [] \<and> distinct (map fst (arguments field))
        \<and> ''__proto__'' \<notin> fst ` set (arguments field)
        \<and> storeKeyNameFromField num shw env field vars = Inr key \<longrightarrow>
        (\<exists>argObj J. fieldsToObjectRepresentation num env (JObj []) (arguments field) vars
                       = Inr (JObj argObj)
           \<and> map fst argObj = map fst (arguments field)
           \<and> JSON_stringify env shw (JObj argObj) = Inr J
           \<and> key = name field @ ''('' @ J @ '')''))
   \<and> storeKeyNameFromField num shw env (field\<lparr>aliasName := al, directives := ds\<rparr>) vars
       = storeKeyNameFromField num shw env field vars"
proof (intro conjI impI)
  assume "arguments field = []"
  then show "storeKeyNameFromField num shw env field vars = Inr (name field)"
    by (simp add: storeKeyNameFromField_def)
next
  assume h: "arguments field \<noteq> [] \<and> distinct (map fst (arguments field))
        \<and> ''__proto__'' \<notin> fst ` set (arguments field)
        \<and> storeKeyNameFromField num shw env field vars = Inr key"
  then obtain obj J where
    a: "fieldsToObjectRepresentation num env (JObj []) (arguments field) vars = Inr obj"
    and j: "JSON_stringify env shw obj = Inr J"
    and k: "key = name field @ ''('' @ J @ '')''"
    by (auto simp: storeKeyNameFromField_def storeKeyNameFromFieldNameAndArgs_def split: sum.splits)
  from fieldsToObjectRepresentation_keys[OF a] h obtain argObj where
    "obj = JObj argObj" "map fst argObj = map fst (arguments field)"
    by auto
  with a j k show "\<exists>argObj J. fieldsToObjectRepresentation num env (JObj []) (arguments field) vars
                       = Inr (JObj argObj)
           \<and> map fst argObj = map fst (arguments field)
           \<and> JSON_stringify env shw (JObj argObj) = Inr J
           \<and> key = name field @ ''('' @ J @ '')''"
    by blast
next
  show "storeKeyNameFromField num shw env (field\<lparr>aliasName := al, directives := ds\<rparr>) vars
       = storeKeyNameFromField num shw env field vars"
    by (simp add: storeKeyNameFromField_def split: sum.splits)
qed

theorem storeKey_insertion_order_witness:
  \<open>arguments \<lparr>aliasName = None, name = ''todos'',
        arguments = [(''completed'', BooleanValue True), (''first'', Variable ''n'')],
        directives = []\<rparr> \<noteq> []
   \<and> distinct (map fst (arguments \<lparr>aliasName = None, name = ''todos'',
        arguments = [(''completed'', BooleanValue True), (''first'', Variable ''n'')],
        directives = []\<rparr>))
   \<and> ''__proto__'' \<notin> fst ` set (arguments \<lparr>aliasName = None, name = ''todos'',
        arguments = [(''completed'', BooleanValue True), (''first'', Variable ''n'')],
        directives = []\<rparr>)
   \<and> storeKeyNameFromField (\<lambda>s. ()) (\<lambda>n. ''0'') exEnv
       \<lparr>aliasName = None, name = ''todos'',
        arguments = [(''completed'', BooleanValue True), (''first'', Variable ''n'')],
        directives = []\<rparr> [''n'' \<mapsto> JStr ''x'']
       = Inr ''todos({"completed":true,"first":"x"})''
   \<and> (\<exists>argObj J. fieldsToObjectRepresentation (\<lambda>s. ()) exEnv (JObj [])
          (arguments \<lparr>aliasName = None, name = ''todos'',
             arguments = [(''completed'', BooleanValue True), (''first'', Variable ''n'')],
             directives = []\<rparr>) [''n'' \<mapsto> JStr ''x''] = Inr (JObj argObj)
        \<and> map fst argObj = map fst (arguments \<lparr>aliasName = None, name = ''todos'',
             arguments = [(''completed'', BooleanValue True), (''first'', Variable ''n'')],
             directives = []\<rparr>)
        \<and> JSON_stringify exEnv (\<lambda>n. ''0'') (JObj argObj) = Inr J
        \<and> ''todos({"completed":true,"first":"x"})''
            = name \<lparr>aliasName = None, name = ''todos'',
                arguments = [(''completed'', BooleanValue True), (''first'', Variable ''n'')],
                directives = []\<rparr> @ ''('' @ J @ '')'')\<close>
proof -
  let ?f = "\<lparr>aliasName = None, name = ''todos'',
        arguments = [(''completed'', BooleanValue True), (''first'', Variable ''n'')],
        directives = []\<rparr>"
  let ?vars = "[''n'' \<mapsto> JStr ''x''] :: string \<rightharpoonup> unit jsval"
  have h: \<open>arguments ?f \<noteq> [] \<and> distinct (map fst (arguments ?f))
       \<and> ''__proto__'' \<notin> fst ` set (arguments ?f)
       \<and> storeKeyNameFromField (\<lambda>s. ()) (\<lambda>n. ''0'') exEnv ?f ?vars
       = Inr ''todos({"completed":true,"first":"x"})''\<close>
    by (simp add: storeKeyNameFromField_def storeKeyNameFromFieldNameAndArgs_def JSON_stringify_def
      assignProperty_plain toJSONMethod_def getV_def objectPrototypeGet_def lookupVariable_def
      objectPrototypeMethods_def quoteJSONString_def quoteChar_def)
  note t = storeKey_insertion_order [where field = ?f and num = "\<lambda>s. ()" and shw = "\<lambda>n. ''0''"
      and env = exEnv and vars = ?vars and key = \<open>''todos({"completed":true,"first":"x"})''\<close>]
  note c = mp [OF t [THEN conjunct2, THEN conjunct1] h]
  note body = conjI [OF h [THEN conjunct1] conjI [OF h [THEN conjunct2, THEN conjunct1]
      conjI [OF h [THEN conjunct2, THEN conjunct2, THEN conjunct1]
        conjI [OF h [THEN conjunct2, THEN conjunct2, THEN conjunct2] c]]]]
  show ?thesis by (rule body)
qed

section \<open>Properties of the writer\<close>




lemma showNat_0: "showNat 0 = ''0''"
  by (simp add: showNat.simps)

text \<open>The definitions a concrete run of the writer unfolds.\<close>

lemmas wsimps = exCtx_def plainField_def getProp_def getV_def objectPrototypeGet_def
      objectPrototypeMethods_def resultKeyNameFromField_def storeKeyNameFromField_def
      isObject_def itemDataId_def objectDataId_def showNat_0 storeNewValue_def assign_def assignProps_def
      strictNotEqual_def isGeneratedId_def idOfObject_def checkOverwrite_def replaceWithMerged_def
      writeFieldToStore.simps mergeWithGenerated.simps

text \<open>
  A response key that names a method of \<open>Object.prototype\<close> does not read as
  \<open>undefined\<close>: the result below has no own property \<open>toString\<close>, and the field is
  written, as a reference to a generated id.
\<close>

lemma inherited_property_is_written:
  "getProp (environment exCtx) (JObj [(''a'', JStr ''x'')])
       (resultKeyNameFromField (plainField ''toString''))
     = Inr (JBuiltin (ObjectMethod ''toString''))
   \<and> writeSelectionSetToStore 0 exCtx ''ROOT_QUERY'' (JObj [(''a'', JStr ''x'')])
       [Field (plainField ''toString'') (Some [Field (plainField ''b'') None])]
       \<lparr>store = Map.empty, nextRef = 0\<rparr>
     = Ok \<lparr>store = [''ROOT_QUERY'' \<mapsto>
                     \<lparr>ref = 0, props = [(''toString'', IdValue ''$ROOT_QUERY.toString'' True)]\<rparr>],
           nextRef = 1\<rparr>"
  by (simp add: wsimps exEnv_def)

text \<open>
  Claim C2 fails on the code for the elements of a list. With no id from
  \<open>dataIdFromObject\<close>, the element at position 0 of the list field \<open>todos\<close> of
  \<open>ROOT_QUERY\<close> is stored under the id \<open>ROOT_QUERY.todos.0\<close>, which does not begin with
  \<open>$\<close>, where the claim has \<open>$ROOT_QUERY.todos.0\<close>. The id of a nested object does
  get the \<open>$\<close>, as the claim says.
\<close>

theorem array_item_id_unprefixed:
  "writeSelectionSetToStore 0 exCtx ''ROOT_QUERY''
     (JObj [(''todos'', JArr [JObj [(''text'', JStr ''hi'')]])])
     [Field (plainField ''todos'') (Some [Field (plainField ''text'') None])]
     \<lparr>store = Map.empty, nextRef = 0\<rparr>
   = Ok \<lparr>store = [''ROOT_QUERY.todos.0'' \<mapsto> \<lparr>ref = 0, props = [(''text'', Scalar (JStr ''hi''))]\<rparr>,
                   ''ROOT_QUERY'' \<mapsto> \<lparr>ref = 1, props = [(''todos'', IdList [Some ''ROOT_QUERY.todos.0''])]\<rparr>],
          nextRef = 2\<rparr>
   \<and> itemDataId exCtx ''ROOT_QUERY'' ''todos'' 0 (JObj [(''text'', JStr ''hi'')]) = ''ROOT_QUERY.todos.0''
   \<and> \<not> isGeneratedId ''ROOT_QUERY.todos.0''
   \<and> objectDataId exCtx ''ROOT_QUERY'' ''todo'' (JObj [(''text'', JStr ''hi'')])
       = Inr (''$ROOT_QUERY.todo'', True)
   \<and> isGeneratedId ''$ROOT_QUERY.todo''"
  by (simp add: wsimps)

text \<open>
  Claim C3 fails on the code for the elements of a list. \<open>dataIdFromObject\<close> returns the
  id \<open>$1\<close> for the element of the list field \<open>todos\<close>: the write returns, the id is
  stored in the list of \<open>ROOT_QUERY\<close> and an entity is stored under it. The same object
  as the value of an object field \<open>todo\<close> makes the write throw, as the claim says.
\<close>

theorem array_item_dollar_id_accepted:
  "(\<exists>s. writeSelectionSetToStore 0 (exCtx\<lparr>dataIdFromObject := Some idOfObject\<rparr>) ''ROOT_QUERY''
       (JObj [(''todos'', JArr [JObj [(''id'', JStr ''$1''), (''text'', JStr ''hi'')]])])
       [Field (plainField ''todos'') (Some [Field (plainField ''id'') None, Field (plainField ''text'') None])]
       \<lparr>store = Map.empty, nextRef = 0\<rparr> = Ok s
     \<and> map_option props (store s ''ROOT_QUERY'') = Some [(''todos'', IdList [Some ''$1''])]
     \<and> map_option props (store s ''$1'')
         = Some [(''id'', Scalar (JStr ''$1'')), (''text'', Scalar (JStr ''hi''))])
   \<and> isGeneratedId ''$1''
   \<and> writeSelectionSetToStore 0 (exCtx\<lparr>dataIdFromObject := Some idOfObject\<rparr>) ''ROOT_QUERY''
       (JObj [(''todo'', JObj [(''id'', JStr ''$1''), (''text'', JStr ''hi'')])])
       [Field (plainField ''todo'') (Some [Field (plainField ''id'') None, Field (plainField ''text'') None])]
       \<lparr>store = Map.empty, nextRef = 0\<rparr> = Throw IdentityViolation"
  by (simp add: wsimps)

text \<open>
  Claim C7 fails on the code for a field whose stored value is an object (here a
  reference; a JSON blob and an id list go the same way). The same result is written
  twice: after the second write the entities have the same properties as before it,
  but both are new objects (their allocation numbers have changed), where the claim
  has them identical by reference. A scalar written twice does leave the store as it
  was, as the claim says.
\<close>

theorem repeated_write_replaces_entity:
  "(\<exists>s1 s2.
      writeSelectionSetToStore 0 exCtx ''ROOT_QUERY''
        (JObj [(''user'', JObj [(''name'', JStr ''Ann'')])])
        [Field (plainField ''user'') (Some [Field (plainField ''name'') None])]
        \<lparr>store = Map.empty, nextRef = 0\<rparr> = Ok s1
    \<and> writeSelectionSetToStore 0 exCtx ''ROOT_QUERY''
        (JObj [(''user'', JObj [(''name'', JStr ''Ann'')])])
        [Field (plainField ''user'') (Some [Field (plainField ''name'') None])] s1 = Ok s2
    \<and> store s1 ''ROOT_QUERY''
        = Some \<lparr>ref = 1, props = [(''user'', IdValue ''$ROOT_QUERY.user'' True)]\<rparr>
    \<and> store s2 ''ROOT_QUERY''
        = Some \<lparr>ref = 3, props = [(''user'', IdValue ''$ROOT_QUERY.user'' True)]\<rparr>
    \<and> store s1 ''$ROOT_QUERY.user'' = Some \<lparr>ref = 0, props = [(''name'', Scalar (JStr ''Ann''))]\<rparr>
    \<and> store s2 ''$ROOT_QUERY.user'' = Some \<lparr>ref = 4, props = [(''name'', Scalar (JStr ''Ann''))]\<rparr>
    \<and> map_option ref (store s2 ''ROOT_QUERY'') \<noteq> map_option ref (store s1 ''ROOT_QUERY''))
   \<and> (\<exists>s1 s2.
      writeSelectionSetToStore 0 exCtx ''User42'' (JObj [(''name'', JStr ''Ann'')])
        [Field (plainField ''name'') None] \<lparr>store = Map.empty, nextRef = 0\<rparr> = Ok s1
    \<and> writeSelectionSetToStore 0 exCtx ''User42'' (JObj [(''name'', JStr ''Ann'')])
        [Field (plainField ''name'') None] s1 = Ok s2
    \<and> store s1 ''User42'' = Some \<lparr>ref = 0, props = [(''name'', Scalar (JStr ''Ann''))]\<rparr>
    \<and> store s2 = store s1)"
  by (simp add: wsimps)

text \<open>The reconciler throws nothing but the \<open>TypeError\<close> of a missing entity.\<close>

lemma merge_throws_TypeError:
  "\<forall>e. mergeWithGenerated fuel g r (c :: 'n store_state) = Throw e \<longrightarrow> e = TypeError"
  "\<forall>e. mergeKeys fuel g r G R ks (c :: 'n store_state) = Throw e \<longrightarrow> e = TypeError"
proof (induction fuel g r c and fuel g r G R ks c rule: mergeWithGenerated_mergeKeys.induct)
  case (1 fuel generatedKey realKey cache)
  then show ?case by (auto simp: mergeWithGenerated.simps split: option.splits)
next
  case (2 fuel generatedKey realKey generated real cache)
  then show ?case by simp
next
  case (3 fuel generatedKey realKey generated real key keys cache)
  show ?case
  proof (cases real)
    case None
    then show ?thesis by simp
  next
    case (Some realObj)
    define step where "step =
             (case (map_of generated key, map_of realObj key) of
                (Some (IdValue valueId vg), Some (IdValue realValueId rg)) \<Rightarrow>
                  if isGeneratedId valueId then
                    (case fuel of
                       0 \<Rightarrow> OutOfFuel
                     | Suc n \<Rightarrow> mergeWithGenerated n valueId realValueId cache)
                  else Ok cache
              | _ \<Rightarrow> Ok cache)"
    show ?thesis
    proof (cases step)
      case (Ok cache1)
      with 3(2)[OF Some] Some show ?thesis
        unfolding step_def by simp
    next
      case (Throw e')
      have "e' = TypeError"
        using Throw 3(1)[OF Some] unfolding step_def
        by (auto split: option.splits StoreValue.splits if_splits nat.splits)
      with Throw Some show ?thesis unfolding step_def by simp
    next
      case OutOfFuel
      with Some show ?thesis unfolding step_def by simp
    qed
  qed
qed

lemma storeNewValue_throws_TypeError:
  "storeNewValue fuel dataId k v m s = Throw e \<Longrightarrow> e = TypeError"
  using merge_throws_TypeError(1)
  by (fastforce simp: storeNewValue_def Let_def split: option.splits outcome.splits if_splits prod.splits)

text \<open>
  Claim C4. The writer is about to store a reference at the slot \<open>(dataId, k)\<close>: the
  nested object has been given its id and has been written, and the entity \<open>dataId\<close>
  exists. If the new reference is generated and the slot holds a real reference, the
  write throws the overwrite error naming the real id. In every other case the write
  goes on to the store step, merging from the old id exactly when the slot holds a
  generated reference; and the store step never throws the overwrite error.
\<close>

theorem identity_overwrite_table:
  "storeKeyNameFromField (Number ctx) (numberToJSON ctx) (environment ctx) field (variables ctx) = Inr k
   \<and> v \<noteq> JNull \<and> (\<forall>xs. v \<noteq> JArr xs)
   \<and> objectDataId ctx dataId k v = Inr (valueDataId, generated)
   \<and> writeSelectionSetToStore fuel ctx valueDataId v selections s = Ok s1
   \<and> store s1 dataId = Some ent
   \<longrightarrow>
     writeFieldToStore fuel ctx dataId field (Some selections) v s
       = (case map_of (props ent) k of
            Some (IdValue oldId oldGenerated) \<Rightarrow>
              if generated \<and> \<not> oldGenerated then Throw (IdentityOverwrite oldId)
              else storeNewValue fuel dataId k (IdValue valueDataId generated)
                     (if oldGenerated then Some (oldId, valueDataId) else None) s1
          | _ \<Rightarrow> storeNewValue fuel dataId k (IdValue valueDataId generated) None s1)
   \<and> (\<forall>merge i. storeNewValue fuel dataId k (IdValue valueDataId generated) merge s1
                    \<noteq> Throw (IdentityOverwrite i))"
proof (intro impI conjI)
  assume h: "storeKeyNameFromField (Number ctx) (numberToJSON ctx) (environment ctx) field (variables ctx) = Inr k
   \<and> v \<noteq> JNull \<and> (\<forall>xs. v \<noteq> JArr xs)
   \<and> objectDataId ctx dataId k v = Inr (valueDataId, generated)
   \<and> writeSelectionSetToStore fuel ctx valueDataId v selections s = Ok s1
   \<and> store s1 dataId = Some ent"
  have w: "writeFieldToStore fuel ctx dataId field (Some selections) v s
      = (case checkOverwrite valueDataId generated (map_of (props ent) k) of
           Inl e \<Rightarrow> Throw e
         | Inr merge \<Rightarrow> storeNewValue fuel dataId k (IdValue valueDataId generated) merge s1)"
    using h by (cases v) (simp_all add: isObject_def writeFieldToStore.simps)
  show "writeFieldToStore fuel ctx dataId field (Some selections) v s
       = (case map_of (props ent) k of
            Some (IdValue oldId oldGenerated) \<Rightarrow>
              if generated \<and> \<not> oldGenerated then Throw (IdentityOverwrite oldId)
              else storeNewValue fuel dataId k (IdValue valueDataId generated)
                     (if oldGenerated then Some (oldId, valueDataId) else None) s1
          | _ \<Rightarrow> storeNewValue fuel dataId k (IdValue valueDataId generated) None s1)"
    unfolding w by (simp add: checkOverwrite_def split: option.splits StoreValue.splits)
  show "\<forall>merge i. storeNewValue fuel dataId k (IdValue valueDataId generated) merge s1
                    \<noteq> Throw (IdentityOverwrite i)"
    using storeNewValue_throws_TypeError by fastforce
qed

theorem identity_overwrite_table_witness:
  "writeFieldToStore 0 exCtx ''ROOT_QUERY'' (plainField ''u'') (Some [Field (plainField ''name'') None])
        (JObj [(''name'', JStr ''Ann'')])
        \<lparr>store = [''ROOT_QUERY'' \<mapsto> \<lparr>ref = 0, props = [(''u'', IdValue ''User42'' False)]\<rparr>],
         nextRef = 1\<rparr>
     = Throw (IdentityOverwrite ''User42'')
   \<and> writeFieldToStore 0 exCtx ''ROOT_QUERY'' (plainField ''u'') (Some [Field (plainField ''name'') None])
        (JObj [(''name'', JStr ''Ann'')])
        \<lparr>store = [''ROOT_QUERY'' \<mapsto> \<lparr>ref = 0, props = [(''u'', IdValue ''$ROOT_QUERY.u'' True)]\<rparr>,
                   ''$ROOT_QUERY.u'' \<mapsto> \<lparr>ref = 1, props = [(''name'', Scalar (JStr ''Ann''))]\<rparr>],
         nextRef = 2\<rparr>
     = storeNewValue 0 ''ROOT_QUERY'' ''u'' (IdValue ''$ROOT_QUERY.u'' True)
         (Some (''$ROOT_QUERY.u'', ''$ROOT_QUERY.u''))
         \<lparr>store = [''ROOT_QUERY'' \<mapsto> \<lparr>ref = 0, props = [(''u'', IdValue ''$ROOT_QUERY.u'' True)]\<rparr>,
                    ''$ROOT_QUERY.u'' \<mapsto> \<lparr>ref = 1, props = [(''name'', Scalar (JStr ''Ann''))]\<rparr>],
          nextRef = 3\<rparr>
   \<and> writeFieldToStore 0 exUserCtx ''ROOT_QUERY'' (plainField ''u'')
        (Some [Field (plainField ''id'') None])
        (JObj [(''id'', JStr ''User42'')])
        \<lparr>store = [''ROOT_QUERY'' \<mapsto> \<lparr>ref = 0, props = [(''u'', IdValue ''User42'' False)]\<rparr>],
         nextRef = 1\<rparr>
     = storeNewValue 0 ''ROOT_QUERY'' ''u'' (IdValue ''User42'' False) None
         \<lparr>store = [''ROOT_QUERY'' \<mapsto> \<lparr>ref = 0, props = [(''u'', IdValue ''User42'' False)]\<rparr>,
                    ''User42'' \<mapsto> \<lparr>ref = 1, props = [(''id'', Scalar (JStr ''User42''))]\<rparr>],
          nextRef = 2\<rparr>"
proof (intro conjI)
  let ?v = "JObj [(''name'', JStr ''Ann'')] :: unit jsval"
  let ?sel = "[Field (plainField ''name'') None]"
  let ?ent = "\<lparr>ref = 0, props = [(''u'', IdValue ''User42'' False)]\<rparr> :: unit entity"
  let ?s = "\<lparr>store = [''ROOT_QUERY'' \<mapsto> ?ent], nextRef = 1\<rparr> :: unit store_state"
  let ?s1 = "\<lparr>store = [''ROOT_QUERY'' \<mapsto> ?ent,
                        ''$ROOT_QUERY.u'' \<mapsto> \<lparr>ref = 1, props = [(''name'', Scalar (JStr ''Ann''))]\<rparr>],
               nextRef = 2\<rparr> :: unit store_state"
  have h: "storeKeyNameFromField (Number exCtx) (numberToJSON exCtx) (environment exCtx) (plainField ''u'') (variables exCtx)
      = Inr ''u''
    \<and> ?v \<noteq> JNull \<and> (\<forall>xs. ?v \<noteq> JArr xs)
    \<and> objectDataId exCtx ''ROOT_QUERY'' ''u'' ?v = Inr (''$ROOT_QUERY.u'', True)
    \<and> writeSelectionSetToStore 0 exCtx ''$ROOT_QUERY.u'' ?v ?sel ?s = Ok ?s1
    \<and> store ?s1 ''ROOT_QUERY'' = Some ?ent"
    by (simp add: wsimps)
  note t = identity_overwrite_table [where ctx = exCtx and field = "plainField ''u''" and k = "''u''"
      and v = ?v and dataId = "''ROOT_QUERY''" and valueDataId = "''$ROOT_QUERY.u''"
      and generated = True and fuel = 0 and selections = ?sel
      and s = ?s and ?s1.0 = ?s1 and ent = ?ent]
  from mp [OF t h, THEN conjunct1]
  show "writeFieldToStore 0 exCtx ''ROOT_QUERY'' (plainField ''u'') (Some ?sel) ?v ?s
      = Throw (IdentityOverwrite ''User42'')"
    by simp
next
  let ?v = "JObj [(''name'', JStr ''Ann'')] :: unit jsval"
  let ?sel = "[Field (plainField ''name'') None]"
  let ?ent = "\<lparr>ref = 0, props = [(''u'', IdValue ''$ROOT_QUERY.u'' True)]\<rparr> :: unit entity"
  let ?st = "[''ROOT_QUERY'' \<mapsto> ?ent,
              ''$ROOT_QUERY.u'' \<mapsto> \<lparr>ref = 1, props = [(''name'', Scalar (JStr ''Ann''))]\<rparr>]
             :: unit NormalizedCache"
  let ?s = "\<lparr>store = ?st, nextRef = 2\<rparr> :: unit store_state"
  let ?s1 = "\<lparr>store = ?st, nextRef = 3\<rparr> :: unit store_state"
  have h: "storeKeyNameFromField (Number exCtx) (numberToJSON exCtx) (environment exCtx) (plainField ''u'') (variables exCtx)
      = Inr ''u''
    \<and> ?v \<noteq> JNull \<and> (\<forall>xs. ?v \<noteq> JArr xs)
    \<and> objectDataId exCtx ''ROOT_QUERY'' ''u'' ?v = Inr (''$ROOT_QUERY.u'', True)
    \<and> writeSelectionSetToStore 0 exCtx ''$ROOT_QUERY.u'' ?v ?sel ?s = Ok ?s1
    \<and> store ?s1 ''ROOT_QUERY'' = Some ?ent"
    by (simp add: wsimps)
  note t = identity_overwrite_table [where ctx = exCtx and field = "plainField ''u''" and k = "''u''"
      and v = ?v and dataId = "''ROOT_QUERY''" and valueDataId = "''$ROOT_QUERY.u''"
      and generated = True and fuel = 0 and selections = ?sel
      and s = ?s and ?s1.0 = ?s1 and ent = ?ent]
  from mp [OF t h, THEN conjunct1]
  show "writeFieldToStore 0 exCtx ''ROOT_QUERY'' (plainField ''u'') (Some ?sel) ?v ?s
      = storeNewValue 0 ''ROOT_QUERY'' ''u'' (IdValue ''$ROOT_QUERY.u'' True)
          (Some (''$ROOT_QUERY.u'', ''$ROOT_QUERY.u'')) ?s1"
    by simp
next
  let ?v = "JObj [(''id'', JStr ''User42'')] :: unit jsval"
  let ?sel = "[Field (plainField ''id'') None]"
  let ?ent = "\<lparr>ref = 0, props = [(''u'', IdValue ''User42'' False)]\<rparr> :: unit entity"
  let ?s = "\<lparr>store = [''ROOT_QUERY'' \<mapsto> ?ent], nextRef = 1\<rparr> :: unit store_state"
  let ?s1 = "\<lparr>store = [''ROOT_QUERY'' \<mapsto> ?ent,
                        ''User42'' \<mapsto> \<lparr>ref = 1, props = [(''id'', Scalar (JStr ''User42''))]\<rparr>],
               nextRef = 2\<rparr> :: unit store_state"
  have h: "storeKeyNameFromField (Number exUserCtx) (numberToJSON exUserCtx) (environment exUserCtx)
        (plainField ''u'') (variables exUserCtx) = Inr ''u''
    \<and> ?v \<noteq> JNull \<and> (\<forall>xs. ?v \<noteq> JArr xs)
    \<and> objectDataId exUserCtx ''ROOT_QUERY'' ''u'' ?v = Inr (''User42'', False)
    \<and> writeSelectionSetToStore 0 exUserCtx ''User42'' ?v ?sel ?s = Ok ?s1
    \<and> store ?s1 ''ROOT_QUERY'' = Some ?ent"
    by (simp add: wsimps exUserCtx_def)
  note t = identity_overwrite_table [where ctx = exUserCtx and field = "plainField ''u''" and k = "''u''"
      and v = ?v and dataId = "''ROOT_QUERY''" and valueDataId = "''User42''"
      and generated = False and fuel = 0 and selections = ?sel
      and s = ?s and ?s1.0 = ?s1 and ent = ?ent]
  from mp [OF t h, THEN conjunct1]
  show "writeFieldToStore 0 exUserCtx ''ROOT_QUERY'' (plainField ''u'') (Some ?sel) ?v ?s
      = storeNewValue 0 ''ROOT_QUERY'' ''u'' (IdValue ''User42'' False) None ?s1"
    by simp
qed

text \<open>
  Claim C5 fails on the code when the object written under the real id is the parent
  entity itself. First \<open>me { id manager { name } }\<close> is written for a user \<open>U1\<close> whose
  manager has no id: the manager is stored under the generated id \<open>$U1.manager\<close>. Then
  \<open>me { id manager { id } }\<close> is written, and the manager is \<open>U1\<close>. The writer builds the
  new entity for \<open>U1\<close> before it merges \<open>$U1.manager\<close> into \<open>U1\<close> and stores it after:
  the generated entity is deleted and its field \<open>name\<close> is lost, where the claim has
  it on the entity \<open>U1\<close>. When the real id is the id of another entity the fields do
  appear there, as the claim says: below, \<open>name\<close> and \<open>email\<close> of \<open>$ROOT_QUERY.user\<close>
  are on \<open>User42\<close> after the second write, the real \<open>name\<close> winning.
\<close>

theorem reconciliation_self_reference_loses_fields:
  "(\<exists>s1 s2.
      writeSelectionSetToStore 0 exUserCtx ''ROOT_QUERY''
        (JObj [(''me'', JObj [(''id'', JStr ''U1''), (''manager'', JObj [(''name'', JStr ''Ann'')])])])
        [Field (plainField ''me'')
           (Some [Field (plainField ''id'') None,
                  Field (plainField ''manager'') (Some [Field (plainField ''name'') None])])]
        \<lparr>store = Map.empty, nextRef = 0\<rparr> = Ok s1
    \<and> map_option props (store s1 ''U1'')
        = Some [(''id'', Scalar (JStr ''U1'')), (''manager'', IdValue ''$U1.manager'' True)]
    \<and> map_option props (store s1 ''$U1.manager'') = Some [(''name'', Scalar (JStr ''Ann''))]
    \<and> writeSelectionSetToStore 0 exUserCtx ''ROOT_QUERY''
        (JObj [(''me'', JObj [(''id'', JStr ''U1''), (''manager'', JObj [(''id'', JStr ''U1'')])])])
        [Field (plainField ''me'')
           (Some [Field (plainField ''id'') None,
                  Field (plainField ''manager'') (Some [Field (plainField ''id'') None])])]
        s1 = Ok s2
    \<and> store s2 ''$U1.manager'' = None
    \<and> map_option props (store s2 ''U1'')
        = Some [(''id'', Scalar (JStr ''U1'')), (''manager'', IdValue ''U1'' False)])
   \<and> (\<exists>s1 s2.
      writeSelectionSetToStore 0 exUserCtx ''ROOT_QUERY''
        (JObj [(''user'', JObj [(''name'', JStr ''Ann''), (''email'', JStr ''a@x'')])])
        [Field (plainField ''user'')
           (Some [Field (plainField ''name'') None, Field (plainField ''email'') None])]
        \<lparr>store = Map.empty, nextRef = 0\<rparr> = Ok s1
    \<and> map_option props (store s1 ''$ROOT_QUERY.user'')
        = Some [(''name'', Scalar (JStr ''Ann'')), (''email'', Scalar (JStr ''a@x''))]
    \<and> writeSelectionSetToStore 0 exUserCtx ''ROOT_QUERY''
        (JObj [(''user'', JObj [(''id'', JStr ''User42''), (''name'', JStr ''Anna'')])])
        [Field (plainField ''user'')
           (Some [Field (plainField ''id'') None, Field (plainField ''name'') None])]
        s1 = Ok s2
    \<and> store s2 ''$ROOT_QUERY.user'' = None
    \<and> map_option props (store s2 ''User42'')
        = Some [(''name'', Scalar (JStr ''Anna'')), (''email'', Scalar (JStr ''a@x'')),
                (''id'', Scalar (JStr ''User42''))])"
  by (simp add: wsimps exUserCtx_def)

section \<open>Properties of the graph writer\<close>

text \<open>
  Claim C6 fails on the code in one part: a fragment whose write is abandoned has
  already written to the graph. The fragment selects \<open>a\<close> and \<open>b\<close> and the data has only
  \<open>a\<close>: the missing \<open>b\<close> raises the partial-write signal, the fragment adds nothing to
  the returned data and the surrounding write returns, but the scalar \<open>a\<close> stays in the
  node, for an inline fragment and for a named one. Outside a fragment the signal
  reaches the caller.
\<close>

theorem fragment_partial_write_leaves_fields:
  "writeToGraph 0 exGraphCtx (Some ''ROOT'') (JObj [(''a'', JStr ''x'')])
     [InlineFragment [] [Field (plainField ''a'') None, Field (plainField ''b'') None]] Map.empty
   = ([''ROOT'' \<mapsto> \<lparr>scalars = [(''a'', JStr ''x'')], references = []\<rparr>],
      Ok (DObject (Some ''ROOT'') []))
   \<and> writeToGraph 1 exGraphCtx (Some ''ROOT'') (JObj [(''a'', JStr ''x'')])
     [FragmentSpread ''F'' []] Map.empty
   = ([''ROOT'' \<mapsto> \<lparr>scalars = [(''a'', JStr ''x'')], references = []\<rparr>],
      Ok (DObject (Some ''ROOT'') []))
   \<and> writeToGraph 0 exGraphCtx (Some ''ROOT'') (JObj [(''a'', JStr ''x'')])
     [Field (plainField ''a'') None, Field (plainField ''b'') None] Map.empty
   = ([''ROOT'' \<mapsto> \<lparr>scalars = [(''a'', JStr ''x'')], references = []\<rparr>],
      Throw (NoDataForField ''b''))"
  by (simp add: writeToGraph.simps exGraphCtx_def plainField_def getProp_def getV_def
      objectPrototypeGet_def objectPrototypeMethods_def resultKeyNameFromField_def
      setScalar_def partialWrite_def)

section \<open>The optimistic layer stack: layer isolation\<close>

text \<open>
  Claim C8. Pushing a layer with \<open>recordOptimistic m f\<close> and removing that same layer
  with \<open>removeOptimistic m\<close> (so \<open>m\<close> tags no layer that was on the stack before) gives
  back the cache as it was: every field of every entity reads through the stack as
  before the push, and the effective store holds the same entities, so an entity that
  only the optimistic write created is absent again.
\<close>

theorem record_then_remove_noop:
  "m \<notin> mutationId ` set (layers c) \<longrightarrow>
     removeOptimistic m (recordOptimistic m f c) = c
   \<and> (\<forall>i field. readOptimistic (removeOptimistic m (recordOptimistic m f c)) i field
                  = readOptimistic c i field)
   \<and> (\<forall>i. hasEntity (removeOptimistic m (recordOptimistic m f c)) i = hasEntity c i)"
proof
  assume fresh: "m \<notin> mutationId ` set (layers c)"
  let ?new = "\<lparr>mutationId = m, writeFn = f, diff = f (readOptimistic c) Map.empty\<rparr>"
  have all: "\<forall>l \<in> set (layers c). mutationId l \<noteq> m" using fresh by auto
  have tw: "takeWhile (\<lambda>l. mutationId l \<noteq> m) (layers c @ [?new]) = layers c"
    using all by simp
  have dw: "dropWhile (\<lambda>l. mutationId l \<noteq> m) (layers c @ [?new]) = [?new]"
    using all by simp
  have "removeOptimistic m (recordOptimistic m f c) = c"
    by (simp add: removeOptimistic_def recordOptimistic_def pushLayer_def tw dw)
  then show "removeOptimistic m (recordOptimistic m f c) = c
   \<and> (\<forall>i field. readOptimistic (removeOptimistic m (recordOptimistic m f c)) i field
                  = readOptimistic c i field)
   \<and> (\<forall>i. hasEntity (removeOptimistic m (recordOptimistic m f c)) i = hasEntity c i)"
    by simp
qed

theorem record_then_remove_noop_witness:
  "''1'' \<notin> mutationId ` set (layers \<lparr>base = exBase, layers = []\<rparr>)
   \<and> readOptimistic (recordOptimistic ''1'' exInsert \<lparr>base = exBase, layers = []\<rparr>) ''TodoList5'' ''todos''
       = Some ''Todo99,Todo3,Todo6,Todo12''
   \<and> hasEntity (recordOptimistic ''1'' exInsert \<lparr>base = exBase, layers = []\<rparr>) ''Todo99''
   \<and> removeOptimistic ''1'' (recordOptimistic ''1'' exInsert \<lparr>base = exBase, layers = []\<rparr>)
       = \<lparr>base = exBase, layers = []\<rparr>
   \<and> readOptimistic (removeOptimistic ''1'' (recordOptimistic ''1'' exInsert \<lparr>base = exBase, layers = []\<rparr>))
        ''TodoList5'' ''todos'' = Some ''Todo3,Todo6,Todo12''
   \<and> \<not> hasEntity (removeOptimistic ''1'' (recordOptimistic ''1'' exInsert \<lparr>base = exBase, layers = []\<rparr>))
        ''Todo99''"
proof -
  let ?c = "\<lparr>base = exBase, layers = []\<rparr>"
  have fresh: "''1'' \<notin> mutationId ` set (layers ?c)" by simp
  have t: "removeOptimistic ''1'' (recordOptimistic ''1'' exInsert ?c) = ?c"
    using record_then_remove_noop [of "''1''" ?c exInsert] fresh by blast
  have r1: "readOptimistic (recordOptimistic ''1'' exInsert ?c) ''TodoList5'' ''todos''
       = Some ''Todo99,Todo3,Todo6,Todo12''"
    by (simp add: recordOptimistic_def pushLayer_def readOptimistic_def readStore_def exInsert_def exBase_def)
  have h1: "hasEntity (recordOptimistic ''1'' exInsert ?c) ''Todo99''"
    by (simp add: recordOptimistic_def pushLayer_def hasEntity_def exInsert_def)
  have r2: "readOptimistic ?c ''TodoList5'' ''todos'' = Some ''Todo3,Todo6,Todo12''"
    by (simp add: readOptimistic_def readStore_def exBase_def)
  have h2: "\<not> hasEntity ?c ''Todo99''"
    by (simp add: hasEntity_def exBase_def)
  show ?thesis using fresh t r1 h1 r2 h2 by simp
qed

end
